theory Spec2Isabelle
  imports Complex_Main
begin

section \<open>The model-evaluation workflow of \<^verbatim>\<open>dags/model_evaluate.py\<close>\<close>

text \<open>
  The workflow has four tasks: \<^verbatim>\<open>data_collect\<close>, \<^verbatim>\<open>evaluate\<close>,
  \<^verbatim>\<open>collect_metric\<close> and \<^verbatim>\<open>send_result\<close>. Each task is embedded as a function that
  returns the lines it prints together with either the exception it raises (\<open>Inl\<close>) or
  the value it returns (\<open>Inr\<close>).

  The frames hold \<^verbatim>\<open>float64\<close> cells, the type pandas gives a column of measurements
  that can miss a value and the type of a regressor's predictions: a finite value, an
  infinity, or the missing value \<^verbatim>\<open>NaN\<close>. The subtraction of \<^verbatim>\<open>evaluate\<close> is the
  subtraction of binary64 arithmetic, rounding to nearest with ties to even and
  overflowing to an infinity. Frames of integer columns are not modelled.
\<close>

subsection \<open>Data\<close>

datatype cell = Num real | PInf | NInf | NaN

text \<open>
  Rounding a real to binary64. The binade of a magnitude \<open>a\<close> is the exponent \<open>e\<close> with
  \<open>2 ^ e \<le> a < 2 ^ (e + 1)\<close>, not below \<open>-1022\<close>, where the subnormal numbers begin;
  it is searched upwards or downwards from 0. In a binade the values are
  \<open>2 ^ (e - 52)\<close> apart. A rounded magnitude of \<open>2 ^ 1024\<close> or more is an infinity.
\<close>

fun up :: "nat \<Rightarrow> int \<Rightarrow> real \<Rightarrow> int" where
  "up 0 e a = e"
| "up (Suc n) e a = (if 2 powi (e + 1) \<le> a then up n (e + 1) a else e)"

fun down :: "nat \<Rightarrow> int \<Rightarrow> real \<Rightarrow> int" where
  "down 0 e a = e"
| "down (Suc n) e a = (if a < 2 powi e then down n (e - 1) a else e)"

definition binade :: "real \<Rightarrow> int" where
  "binade a = (if 1 \<le> a then up 1024 0 a else down 1022 0 a)"

definition round_half_even :: "real \<Rightarrow> int" where
  "round_half_even q =
     (let n = \<lfloor>q\<rfloor>; r = q - of_int n
      in if r < 1 / 2 then n else if 1 / 2 < r then n + 1 else if even n then n else n + 1)"

definition round64 :: "real \<Rightarrow> cell" where
  "round64 x =
     (if x = 0 then Num 0
      else let ulp = 2 powi (binade \<bar>x\<bar> - 52);
               y = of_int (round_half_even (x / ulp)) * ulp
           in if 2 ^ 1024 \<le> y then PInf
              else if y \<le> - (2 ^ 1024) then NInf
              else Num y)"

text \<open>The finite \<^verbatim>\<open>float64\<close> values are the reals that rounding leaves as they are.\<close>

definition is_float64 :: "real \<Rightarrow> bool" where
  "is_float64 x = (round64 x = Num x)"

text \<open>
  Addition, negation, subtraction and comparison of \<^verbatim>\<open>float64\<close> values. A
  \<^verbatim>\<open>NaN\<close> operand gives \<^verbatim>\<open>NaN\<close>, as does the sum of opposite infinities; a
  comparison with \<^verbatim>\<open>NaN\<close> is false.
\<close>

fun neg_cell :: "cell \<Rightarrow> cell" where
  "neg_cell (Num a) = Num (- a)"
| "neg_cell PInf = NInf"
| "neg_cell NInf = PInf"
| "neg_cell NaN = NaN"

fun add_cell :: "cell \<Rightarrow> cell \<Rightarrow> cell" where
  "add_cell (Num a) (Num b) = round64 (a + b)"
| "add_cell NaN _ = NaN"
| "add_cell _ NaN = NaN"
| "add_cell PInf NInf = NaN"
| "add_cell NInf PInf = NaN"
| "add_cell PInf _ = PInf"
| "add_cell _ PInf = PInf"
| "add_cell NInf _ = NInf"
| "add_cell _ NInf = NInf"

definition sub_cell :: "cell \<Rightarrow> cell \<Rightarrow> cell" where
  "sub_cell a b = add_cell a (neg_cell b)"

fun cell_le :: "cell \<Rightarrow> cell \<Rightarrow> bool" where
  "cell_le (Num a) (Num b) = (a \<le> b)"
| "cell_le NaN _ = False"
| "cell_le _ NaN = False"
| "cell_le NInf _ = True"
| "cell_le _ PInf = True"
| "cell_le _ _ = False"

text \<open>A numeric \<^verbatim>\<open>pandas.DataFrame\<close>: its column labels and its rows.\<close>

record frame =
  columns :: "string list"
  rows :: "cell list list"

definition shape :: "frame \<Rightarrow> nat \<times> nat" where
  "shape f = (length (rows f), length (columns f))"

text \<open>\<^verbatim>\<open>pd.DataFrame(data, columns=cols)\<close> for a matrix of finite values.\<close>

definition DataFrame :: "string list \<Rightarrow> real list list \<Rightarrow> frame" where
  "DataFrame cols data = \<lparr>columns = cols, rows = map (map Num) data\<rparr>"

text \<open>A matrix is rectangular when each of its rows has \<open>k\<close> entries.\<close>

definition rectangular :: "nat \<Rightarrow> 'a list list \<Rightarrow> bool" where
  "rectangular k m = list_all (\<lambda>r. length r = k) m"

text \<open>
  The table returned by \<^verbatim>\<open>_GET_QA\<close>: the labels of its numeric columns, and for every
  row the value of its \<^verbatim>\<open>mapping_uid\<close> column and its numeric cells.
\<close>

record 'u qa_table =
  qa_columns :: "string list"
  qa_rows :: "('u \<times> cell list) list"

text \<open>
  The exceptions of the workflow, all subclasses of Python's \<^verbatim>\<open>Exception\<close>; the
  argument is the text \<^verbatim>\<open>str(e)\<close> gives. \<open>CollaboratorError\<close> stands for whatever the
  functions imported from \<^verbatim>\<open>util\<close> raise.
\<close>

datatype exn = KeyError string | ValueError string | CollaboratorError string

fun str_exn :: "exn \<Rightarrow> string" where
  "str_exn (KeyError m) = m"
| "str_exn (ValueError m) = m"
| "str_exn (CollaboratorError m) = m"

type_synonym metrics = "(string \<times> cell) list"

text \<open>A printed line: plain text, or a text followed by the \<^verbatim>\<open>repr\<close> of a dictionary.\<close>

datatype printed = Text string | Text_dict string metrics

type_synonym 'a task_result = "printed list \<times> (exn + 'a)"

record dag_params =
  model_id :: string
  prediction_path :: string
  date :: string
  lot_id :: string
  targets_name :: "string list"

record 'r task_context =
  params :: dag_params
  dag_run :: 'r

record collected =
  prediction :: frame
  ground_truth :: frame

subsection \<open>The handler shared by the four tasks\<close>

text \<open>
  \<^verbatim>\<open>except Exception as e: print(f"Error in <task>: {str(e)}"); raise e\<close>,
  applied to the outcome of the \<^verbatim>\<open>try\<close> block.
\<close>

definition except_reraise :: "string \<Rightarrow> 'a task_result \<Rightarrow> 'a task_result" where
  "except_reraise task r =
     (case r of
        (out, Inl e) \<Rightarrow> (out @ [Text (''Error in '' @ task @ '': '' @ str_exn e)], Inl e)
      | (out, Inr v) \<Rightarrow> (out, Inr v))"

subsection \<open>pandas: column selection and \<^verbatim>\<open>dropna\<close>\<close>

fun index_of :: "'a \<Rightarrow> 'a list \<Rightarrow> nat" where
  "index_of x [] = 0"
| "index_of x (y # ys) = (if x = y then 0 else Suc (index_of x ys))"

text \<open>
  \<^verbatim>\<open>ground_truth['mapping_uid']\<close>. The table has this column by the contract of
  \<^verbatim>\<open>_GET_QA\<close>, so the lookup does not fail.
\<close>

definition mapping_uid :: "'u qa_table \<Rightarrow> 'u list" where
  "mapping_uid qa = map fst (qa_rows qa)"

text \<open>
  \<^verbatim>\<open>ground_truth[targets_name]\<close>: a \<^verbatim>\<open>KeyError\<close> when a label is not a column of the
  table, otherwise the frame of the named columns in the order asked for. The text of the
  \<^verbatim>\<open>KeyError\<close> lists the missing labels; its exact wording is that of pandas and plays
  no role below.
\<close>

definition select_row :: "string list \<Rightarrow> string list \<Rightarrow> cell list \<Rightarrow> cell list" where
  "select_row cols names r = map (\<lambda>t. r ! index_of t cols) names"

definition getitem :: "'u qa_table \<Rightarrow> string list \<Rightarrow> exn + frame" where
  "getitem qa names =
     (case filter (\<lambda>t. t \<notin> set (qa_columns qa)) names of
        [] \<Rightarrow> Inr \<lparr>columns = names,
                  rows = map (\<lambda>(u, r). select_row (qa_columns qa) names r) (qa_rows qa)\<rparr>
      | t # ts \<Rightarrow> Inl (KeyError (concat (map (\<lambda>s. s @ '' '') (t # ts)) @ ''not in index'')))"

text \<open>
  \<^verbatim>\<open>DataFrame.dropna()\<close>: the rows without a missing value. An infinity is not a
  missing value.
\<close>

definition dropna :: "frame \<Rightarrow> frame" where
  "dropna f = f\<lparr>rows := filter (\<lambda>r. NaN \<notin> set r) (rows f)\<rparr>"

subsection \<open>Task \<^verbatim>\<open>data_collect\<close>\<close>

text \<open>
  The body of the \<^verbatim>\<open>try\<close> block. \<open>GET_PREDICTION\<close> and \<open>GET_QA\<close> are the functions
  \<^verbatim>\<open>_GET_PREDICTION\<close> and \<^verbatim>\<open>_GET_QA\<close> of \<^verbatim>\<open>util\<close>, taken as parameters.
\<close>

definition data_collect_try ::
  "(string \<Rightarrow> string list \<Rightarrow> exn + frame \<times> 'u list) \<Rightarrow>
   (string \<Rightarrow> string \<Rightarrow> exn + 'u qa_table) \<Rightarrow> 'r task_context \<Rightarrow> collected task_result" where
  "data_collect_try GET_PREDICTION GET_QA ctx =
     (let ps = params ctx;
          out1 = [Text (''Collecting prediction data from path: '' @ prediction_path ps)]
      in case GET_PREDICTION (prediction_path ps) (targets_name ps) of
           Inl e \<Rightarrow> (out1, Inl e)
         | Inr (pred, uid) \<Rightarrow>
            (let out2 = out1 @ [Text (''Collecting ground truth data for date: '' @ date ps
                                      @ '', lot_id: '' @ lot_id ps)]
             in case GET_QA (date ps) (lot_id ps) of
                  Inl e \<Rightarrow> (out2, Inl e)
                | Inr qa \<Rightarrow>
                   (let g_uid = mapping_uid qa
                    in case getitem qa (targets_name ps) of
                         Inl e \<Rightarrow> (out2, Inl e)
                       | Inr gt \<Rightarrow>
                          (let gt' = dropna gt;
                               out3 = out2 @ [Text ''Checking if prediction and ground truth UIDs match''];
                               uids_match = (set uid = set g_uid);
                               out4 = (if \<not> uids_match
                                       then out3 @ [Text ''Warning: The mapping_uids do not match between the prediction and ground_truth data.'']
                                       else out3)
                           in (out4, Inr \<lparr>prediction = pred, ground_truth = gt'\<rparr>)))))"

definition data_collect ::
  "(string \<Rightarrow> string list \<Rightarrow> exn + frame \<times> 'u list) \<Rightarrow>
   (string \<Rightarrow> string \<Rightarrow> exn + 'u qa_table) \<Rightarrow> 'r task_context \<Rightarrow> collected task_result" where
  "data_collect GET_PREDICTION GET_QA ctx =
     except_reraise ''data_collect'' (data_collect_try GET_PREDICTION GET_QA ctx)"

subsection \<open>scikit-learn and numpy, as far as \<^verbatim>\<open>evaluate\<close> calls them\<close>

text \<open>
  \<^verbatim>\<open>r2_score\<close> and \<^verbatim>\<open>mean_squared_error\<close> are functions of scikit-learn, and the
  array operations are numpy's; they are not part of the repository. The definitions
  follow the documented behaviour of the library functions with the default arguments
  \<^verbatim>\<open>evaluate\<close> calls them with, input validation included. The texts of the
  \<^verbatim>\<open>ValueError\<close>s abbreviate the library's.

  The values of the two scores are computed in exact arithmetic from the finite values
  of the cells; the rounding of the library's intermediate sums is not modelled.

  \<^verbatim>\<open>check_array\<close> refuses a missing value, an infinity, an array without rows and an
  array without columns, in this order, and otherwise gives the matrix of finite values.
\<close>

fun num_of :: "cell \<Rightarrow> real option" where
  "num_of (Num x) = Some x"
| "num_of PInf = None"
| "num_of NInf = None"
| "num_of NaN = None"

definition check_array :: "frame \<Rightarrow> exn + real list list" where
  "check_array f =
     (if list_ex (\<lambda>r. NaN \<in> set r) (rows f) then Inl (ValueError ''Input contains NaN.'')
      else case those (map (\<lambda>r. those (map num_of r)) (rows f)) of
             None \<Rightarrow> Inl (ValueError ''Input contains infinity or a value too large for float64.'')
           | Some m \<Rightarrow>
              if m = [] then Inl (ValueError ''Found array with 0 sample(s) while a minimum of 1 is required.'')
              else if columns f = [] then Inl (ValueError ''Found array with 0 feature(s) while a minimum of 1 is required.'')
              else Inr m)"

text \<open>
  \<^verbatim>\<open>_check_reg_targets\<close>: equal numbers of rows, both arrays accepted by
  \<^verbatim>\<open>check_array\<close>, equal numbers of columns.
\<close>

definition check_reg_targets :: "frame \<Rightarrow> frame \<Rightarrow> exn + real list list \<times> real list list" where
  "check_reg_targets y_true y_pred =
     (if length (rows y_true) \<noteq> length (rows y_pred)
      then Inl (ValueError ''Found input variables with inconsistent numbers of samples'')
      else case check_array y_true of
             Inl e \<Rightarrow> Inl e
           | Inr yt \<Rightarrow>
              (case check_array y_pred of
                 Inl e \<Rightarrow> Inl e
               | Inr yp \<Rightarrow>
                  if length (columns y_true) \<noteq> length (columns y_pred)
                  then Inl (ValueError ''y_true and y_pred have different number of output'')
                  else Inr (yt, yp)))"

definition col :: "real list list \<Rightarrow> nat \<Rightarrow> real list" where
  "col m j = map (\<lambda>r. r ! j) m"

definition average :: "real list \<Rightarrow> real" where
  "average xs = sum_list xs / real (length xs)"

definition squared_errors :: "real list \<Rightarrow> real list \<Rightarrow> real list" where
  "squared_errors ts ps = map2 (\<lambda>t p. (t - p)\<^sup>2) ts ps"

text \<open>
  \<^verbatim>\<open>r2_score\<close> with its defaults: \<^verbatim>\<open>nan\<close> for fewer than two rows; per column
  \<open>1 - SS_res / SS_tot\<close>, or 0 when only \<open>SS_tot\<close> vanishes, or 1 when \<open>SS_res\<close> vanishes;
  then the plain average over the columns.
\<close>

definition output_score :: "real \<Rightarrow> real \<Rightarrow> real" where
  "output_score numerator denominator =
     (if denominator \<noteq> 0 \<and> numerator \<noteq> 0 then 1 - numerator / denominator
      else if numerator \<noteq> 0 then 0
      else 1)"

definition r2_score :: "frame \<Rightarrow> frame \<Rightarrow> exn + cell" where
  "r2_score y_true y_pred =
     (case check_reg_targets y_true y_pred of
        Inl e \<Rightarrow> Inl e
      | Inr (yt, yp) \<Rightarrow>
         if length yp < 2 then Inr NaN
         else
           (let n_outputs = length (columns y_true);
                numerator = map (\<lambda>j. sum_list (squared_errors (col yt j) (col yp j))) [0..<n_outputs];
                denominator = map (\<lambda>j. sum_list (map (\<lambda>t. (t - average (col yt j))\<^sup>2) (col yt j)))
                                  [0..<n_outputs];
                output_scores = map2 output_score numerator denominator
            in Inr (Num (average output_scores))))"

text \<open>
  \<^verbatim>\<open>mean_squared_error\<close> with its defaults: the mean of the squared errors of each
  column, then the plain average over the columns.
\<close>

definition mean_squared_error :: "frame \<Rightarrow> frame \<Rightarrow> exn + cell" where
  "mean_squared_error y_true y_pred =
     (case check_reg_targets y_true y_pred of
        Inl e \<Rightarrow> Inl e
      | Inr (yt, yp) \<Rightarrow>
         (let n_outputs = length (columns y_true);
              output_errors = map (\<lambda>j. average (squared_errors (col yt j) (col yp j))) [0..<n_outputs]
          in Inr (Num (average output_errors))))"

text \<open>
  \<^verbatim>\<open>numpy.maximum\<close> and \<^verbatim>\<open>numpy.minimum\<close> of two cells: a missing value makes the
  result missing.
\<close>

definition max_cell :: "cell \<Rightarrow> cell \<Rightarrow> cell" where
  "max_cell a b = (if a = NaN \<or> b = NaN then NaN else if cell_le a b then b else a)"

definition min_cell :: "cell \<Rightarrow> cell \<Rightarrow> cell" where
  "min_cell a b = (if a = NaN \<or> b = NaN then NaN else if cell_le a b then a else b)"

text \<open>
  \<^verbatim>\<open>a - b\<close> on two-dimensional arrays of one shape. Arrays of different shapes are
  refused here; numpy would broadcast some of them, but \<^verbatim>\<open>evaluate\<close> only gets to the
  subtraction after \<^verbatim>\<open>r2_score\<close> has accepted the shapes as equal.
\<close>

definition np_sub :: "cell list list \<Rightarrow> cell list list \<Rightarrow> exn + cell list list" where
  "np_sub a b =
     (if map length a = map length b then Inr (map2 (map2 sub_cell) a b)
      else Inl (ValueError ''operands could not be broadcast together''))"

text \<open>\<^verbatim>\<open>ndarray.max()\<close> and \<^verbatim>\<open>ndarray.min()\<close> over all elements.\<close>

definition np_max :: "cell list list \<Rightarrow> exn + cell" where
  "np_max a =
     (case concat a of
        [] \<Rightarrow> Inl (ValueError ''zero-size array to reduction operation maximum which has no identity'')
      | x # xs \<Rightarrow> Inr (fold max_cell xs x))"

definition np_min :: "cell list list \<Rightarrow> exn + cell" where
  "np_min a =
     (case concat a of
        [] \<Rightarrow> Inl (ValueError ''zero-size array to reduction operation minimum which has no identity'')
      | x # xs \<Rightarrow> Inr (fold min_cell xs x))"

subsection \<open>Task \<^verbatim>\<open>evaluate\<close>\<close>

definition evaluate_try :: "frame \<Rightarrow> frame \<Rightarrow> metrics task_result" where
  "evaluate_try gt pred =
     (let out1 = [Text ''Calculating evaluation metrics'']
      in case r2_score gt pred of
           Inl e \<Rightarrow> (out1, Inl e)
         | Inr r2 \<Rightarrow>
            (case mean_squared_error gt pred of
               Inl e \<Rightarrow> (out1, Inl e)
             | Inr mse \<Rightarrow>
                (case np_sub (rows pred) (rows gt) of
                   Inl e \<Rightarrow> (out1, Inl e)
                 | Inr errors \<Rightarrow>
                    (case np_max errors of
                       Inl e \<Rightarrow> (out1, Inl e)
                     | Inr pos_max_err \<Rightarrow>
                        (case np_min errors of
                           Inl e \<Rightarrow> (out1, Inl e)
                         | Inr neg_max_err \<Rightarrow>
                            (let metrics = [(''r2_score'', r2),
                                            (''mse_score'', mse),
                                            (''pos_max_err'', pos_max_err),
                                            (''neg_max_err'', neg_max_err)]
                             in (out1 @ [Text_dict ''Evaluation metrics: '' metrics],
                                 Inr metrics)))))))"

definition evaluate :: "frame \<Rightarrow> frame \<Rightarrow> metrics task_result" where
  "evaluate gt pred = except_reraise ''evaluate'' (evaluate_try gt pred)"

subsection \<open>Tasks \<^verbatim>\<open>collect_metric\<close> and \<^verbatim>\<open>send_result\<close>\<close>

text \<open>\<open>LOG_METRIC\<close> and \<open>SEND_RESULT\<close> are \<^verbatim>\<open>_LOG_METRIC\<close> and \<^verbatim>\<open>_SEND_RESULT\<close> of \<^verbatim>\<open>util\<close>.\<close>

definition collect_metric_try ::
  "(string \<Rightarrow> metrics \<Rightarrow> exn + 'a) \<Rightarrow> 'r task_context \<Rightarrow> metrics \<Rightarrow> 'a task_result" where
  "collect_metric_try LOG_METRIC ctx metrics =
     (let ps = params ctx
      in ([Text (''Logging metrics for model: '' @ model_id ps)],
          LOG_METRIC (model_id ps) metrics))"

definition collect_metric ::
  "(string \<Rightarrow> metrics \<Rightarrow> exn + 'a) \<Rightarrow> 'r task_context \<Rightarrow> metrics \<Rightarrow> 'a task_result" where
  "collect_metric LOG_METRIC ctx metrics =
     except_reraise ''collect_metric'' (collect_metric_try LOG_METRIC ctx metrics)"

definition send_result_try ::
  "(string \<Rightarrow> 'r \<Rightarrow> metrics \<Rightarrow> exn + 'b) \<Rightarrow> 'r task_context \<Rightarrow> metrics \<Rightarrow> 'b task_result" where
  "send_result_try SEND_RESULT ctx metrics =
     (let ps = params ctx;
          dag_params = dag_run ctx
      in ([Text (''Sending results for model: '' @ model_id ps)],
          SEND_RESULT (model_id ps) dag_params metrics))"

definition send_result ::
  "(string \<Rightarrow> 'r \<Rightarrow> metrics \<Rightarrow> exn + 'b) \<Rightarrow> 'r task_context \<Rightarrow> metrics \<Rightarrow> 'b task_result" where
  "send_result SEND_RESULT ctx metrics =
     except_reraise ''send_result'' (send_result_try SEND_RESULT ctx metrics)"

subsection \<open>The workflow \<^verbatim>\<open>model_evaluate\<close>\<close>

text \<open>
  A task runs when the task it takes its argument from has returned; \<open>None\<close> is a task
  that did not run. \<^verbatim>\<open>collect_metric\<close> and \<^verbatim>\<open>send_result\<close> both take the value
  returned by \<^verbatim>\<open>evaluate\<close>.
\<close>

record ('a, 'b) dag_result =
  data_collect_result :: "collected task_result"
  evaluate_result :: "metrics task_result option"
  collect_metric_response :: "'a task_result option"
  send_result_response :: "'b task_result option"

definition model_evaluate ::
  "(string \<Rightarrow> string list \<Rightarrow> exn + frame \<times> 'u list) \<Rightarrow>
   (string \<Rightarrow> string \<Rightarrow> exn + 'u qa_table) \<Rightarrow>
   (string \<Rightarrow> metrics \<Rightarrow> exn + 'a) \<Rightarrow>
   (string \<Rightarrow> 'r \<Rightarrow> metrics \<Rightarrow> exn + 'b) \<Rightarrow> 'r task_context \<Rightarrow> ('a, 'b) dag_result" where
  "model_evaluate GET_PREDICTION GET_QA LOG_METRIC SEND_RESULT ctx =
     (let data_collect_result = data_collect GET_PREDICTION GET_QA ctx
      in case snd data_collect_result of
           Inl e \<Rightarrow> \<lparr>data_collect_result = data_collect_result, evaluate_result = None,
                     collect_metric_response = None, send_result_response = None\<rparr>
         | Inr d \<Rightarrow>
            (let metrics = evaluate (ground_truth d) (prediction d)
             in case snd metrics of
                  Inl e \<Rightarrow> \<lparr>data_collect_result = data_collect_result, evaluate_result = Some metrics,
                            collect_metric_response = None, send_result_response = None\<rparr>
                | Inr m \<Rightarrow>
                   \<lparr>data_collect_result = data_collect_result, evaluate_result = Some metrics,
                    collect_metric_response = Some (collect_metric LOG_METRIC ctx m),
                    send_result_response = Some (send_result SEND_RESULT ctx m)\<rparr>))"

subsection \<open>Example runs\<close>

text \<open>
  Concrete inputs on which the properties below are evaluated: a ground-truth table of
  three items, the second with a missing \<^verbatim>\<open>loop_height\<close>; a prediction with a row
  for each of the three items; a prediction with two rows; and collaborators that answer
  or fail.
\<close>

definition example_params :: dag_params where
  "example_params =
     \<lparr>model_id = ''multi_y_regressor'', prediction_path = ''/predictions/run1'',
      date = ''2024-01-01'', lot_id = ''LOT-1'',
      targets_name = [''ball_thickness'', ''loop_height'']\<rparr>"

definition example_context :: "string task_context" where
  "example_context = \<lparr>params = example_params, dag_run = ''manual-run''\<rparr>"

definition example_qa :: "string qa_table" where
  "example_qa =
     \<lparr>qa_columns = [''loop_height'', ''ball_thickness''],
      qa_rows = [(''u1'', [Num 1, Num 2]), (''u2'', [NaN, Num 4]), (''u3'', [Num 5, Num 6])]\<rparr>"

definition example_prediction :: frame where
  "example_prediction = DataFrame [''ball_thickness'', ''loop_height''] [[2, 1], [4, 3], [6, 5]]"

definition example_GET_PREDICTION :: "string list \<Rightarrow> string \<Rightarrow> string list \<Rightarrow> exn + frame \<times> string list" where
  "example_GET_PREDICTION uid path names = Inr (example_prediction, uid)"

definition example_GET_QA :: "string \<Rightarrow> string \<Rightarrow> exn + string qa_table" where
  "example_GET_QA d l = Inr example_qa"

definition example_prediction2 :: frame where
  "example_prediction2 = DataFrame [''ball_thickness'', ''loop_height''] [[2, 1], [6, 7]]"

definition example_GET_PREDICTION2 :: "string \<Rightarrow> string list \<Rightarrow> exn + frame \<times> string list" where
  "example_GET_PREDICTION2 path names = Inr (example_prediction2, [''u1'', ''u3''])"

definition example_LOG_METRIC :: "string \<Rightarrow> metrics \<Rightarrow> exn + string \<times> metrics" where
  "example_LOG_METRIC i m = Inr (i, m)"

definition example_SEND_RESULT :: "string \<Rightarrow> string \<Rightarrow> metrics \<Rightarrow> exn + string \<times> string \<times> metrics" where
  "example_SEND_RESULT i r m = Inr (i, r, m)"

definition failing_GET_PREDICTION :: "string \<Rightarrow> string list \<Rightarrow> exn + frame \<times> string list" where
  "failing_GET_PREDICTION path names = Inl (CollaboratorError ''prediction store unreachable'')"

definition failing_LOG_METRIC :: "string \<Rightarrow> metrics \<Rightarrow> exn + string \<times> metrics" where
  "failing_LOG_METRIC i m = Inl (CollaboratorError ''metric server unreachable'')"

definition failing_SEND_RESULT :: "string \<Rightarrow> string \<Rightarrow> metrics \<Rightarrow> exn + string \<times> string \<times> metrics" where
  "failing_SEND_RESULT i r m = Inl (CollaboratorError ''result server unreachable'')"

section \<open>Auxiliary facts\<close>

subsection \<open>The order of the cells\<close>

lemma cell_le_refl: "a \<noteq> NaN \<Longrightarrow> cell_le a a"
  by (cases a) auto

lemma cell_le_trans: "cell_le a b \<Longrightarrow> cell_le b c \<Longrightarrow> cell_le a c"
  by (cases a; cases b; cases c) auto

lemma cell_le_total: "a \<noteq> NaN \<Longrightarrow> b \<noteq> NaN \<Longrightarrow> cell_le a b \<or> cell_le b a"
  by (cases a; cases b) auto

lemma cell_le_antisym: "cell_le a b \<Longrightarrow> cell_le b a \<Longrightarrow> a = b"
  by (cases a; cases b) auto

lemma round64_not_NaN: "round64 x \<noteq> NaN"
  by (simp add: round64_def Let_def)

lemma sub_cell_Num: "sub_cell (Num a) (Num b) = round64 (a - b)"
  by (simp add: sub_cell_def)

lemma sub_cell_same: "sub_cell (Num a) (Num a) = Num 0"
  by (simp add: sub_cell_Num round64_def)

lemma sub_cell_not_NaN: "sub_cell (Num a) (Num b) \<noteq> NaN"
  by (simp add: sub_cell_Num round64_not_NaN)

lemma fold_max_cell:
  assumes "x \<noteq> NaN" "NaN \<notin> set xs"
  shows "fold max_cell xs x \<in> set (x # xs) \<and> (\<forall>y\<in>set (x # xs). cell_le y (fold max_cell xs x))"
  using assms
proof (induction xs arbitrary: x)
  case Nil
  then show ?case by (simp add: cell_le_refl)
next
  case (Cons z zs)
  have z: "z \<noteq> NaN" "NaN \<notin> set zs" using Cons.prems(2) by auto
  let ?w = "max_cell z x"
  have w: "?w \<noteq> NaN" "?w = x \<or> ?w = z" "cell_le x ?w" "cell_le z ?w"
    using Cons.prems(1) z(1) cell_le_total [of z x] cell_le_refl [of x] cell_le_refl [of z]
    by (auto simp: max_cell_def)
  from Cons.IH [OF w(1) z(2)]
  have ih: "fold max_cell zs ?w \<in> set (?w # zs)"
    "\<forall>y\<in>set (?w # zs). cell_le y (fold max_cell zs ?w)" by blast+
  from ih(2) have top: "cell_le ?w (fold max_cell zs ?w)" by simp
  have "cell_le x (fold max_cell zs ?w)" "cell_le z (fold max_cell zs ?w)"
    using cell_le_trans [OF w(3) top] cell_le_trans [OF w(4) top] by blast+
  with ih w(2) show ?case by auto
qed

lemma fold_min_cell:
  assumes "x \<noteq> NaN" "NaN \<notin> set xs"
  shows "fold min_cell xs x \<in> set (x # xs) \<and> (\<forall>y\<in>set (x # xs). cell_le (fold min_cell xs x) y)"
  using assms
proof (induction xs arbitrary: x)
  case Nil
  then show ?case by (simp add: cell_le_refl)
next
  case (Cons z zs)
  have z: "z \<noteq> NaN" "NaN \<notin> set zs" using Cons.prems(2) by auto
  let ?w = "min_cell z x"
  have w: "?w \<noteq> NaN" "?w = x \<or> ?w = z" "cell_le ?w x" "cell_le ?w z"
    using Cons.prems(1) z(1) cell_le_total [of z x] cell_le_refl [of x] cell_le_refl [of z]
    by (auto simp: min_cell_def)
  from Cons.IH [OF w(1) z(2)]
  have ih: "fold min_cell zs ?w \<in> set (?w # zs)"
    "\<forall>y\<in>set (?w # zs). cell_le (fold min_cell zs ?w) y" by blast+
  from ih(2) have bot: "cell_le (fold min_cell zs ?w) ?w" by simp
  have "cell_le (fold min_cell zs ?w) x" "cell_le (fold min_cell zs ?w) z"
    using cell_le_trans [OF bot w(3)] cell_le_trans [OF bot w(4)] by blast+
  with ih w(2) show ?case by auto
qed

lemma np_max_greatest:
  assumes "concat a \<noteq> []" "NaN \<notin> set (concat a)"
  shows "\<exists>hi. np_max a = Inr hi \<and> hi \<in> set (concat a) \<and> (\<forall>y\<in>set (concat a). cell_le y hi)"
proof -
  from assms(1) obtain x xs where c: "concat a = x # xs" by (cases "concat a") auto
  with assms(2) have "x \<noteq> NaN" "NaN \<notin> set xs" by auto
  from fold_max_cell [OF this] show ?thesis
    by (simp add: np_max_def c)
qed

lemma np_min_least:
  assumes "concat a \<noteq> []" "NaN \<notin> set (concat a)"
  shows "\<exists>lo. np_min a = Inr lo \<and> lo \<in> set (concat a) \<and> (\<forall>y\<in>set (concat a). cell_le lo y)"
proof -
  from assms(1) obtain x xs where c: "concat a = x # xs" by (cases "concat a") auto
  with assms(2) have "x \<noteq> NaN" "NaN \<notin> set xs" by auto
  from fold_min_cell [OF this] show ?thesis
    by (simp add: np_min_def c)
qed

subsection \<open>Evaluating the rounding\<close>

lemma up_unfold:
  "0 < n \<Longrightarrow> up n e a = (if 2 powi (e + 1) \<le> a then up (n - 1) (e + 1) a else e)"
  by (cases n) auto

lemma down_unfold:
  "0 < n \<Longrightarrow> down n e a = (if a < 2 powi e then down (n - 1) (e - 1) a else e)"
  by (cases n) auto

lemmas round64_eval = round64_def binade_def up_unfold down_unfold round_half_even_def
  Let_def power_int_minus

text \<open>
  A magnitude of \<open>2 ^ 1024\<close> or more rounds to an infinity; a difference of magnitude
  \<open>10 ^ 16\<close> has no room for a unit.
\<close>

lemma up_reach:
  "(\<forall>i<n. 2 powi (e + 1 + int i) \<le> a) \<Longrightarrow> up n e a = e + int n"
proof (induction n arbitrary: e)
  case 0
  then show ?case by simp
next
  case (Suc n)
  from Suc.prems have first: "2 powi (e + 1) \<le> a" by (metis add.right_neutral of_nat_0 zero_less_Suc)
  have "\<forall>i<n. 2 powi (e + 1 + 1 + int i) \<le> a"
  proof (intro allI impI)
    fix i assume "i < n"
    then have "Suc i < Suc n" by simp
    with Suc.prems have "2 powi (e + 1 + int (Suc i)) \<le> a" by blast
    then show "2 powi (e + 1 + 1 + int i) \<le> a" by (simp add: add.commute add.left_commute)
  qed
  from Suc.IH [OF this] first show ?case by simp
qed

lemma binade_top:
  assumes "2 ^ 1024 \<le> a"
  shows "binade a = 1024"
proof -
  have big: "(2::real) powi 1024 \<le> a" using assms by simp
  have one: "1 \<le> a"
    using assms one_le_power [of "2::real" 1024] by linarith
  have "\<forall>i<1024. 2 powi (0 + 1 + int i) \<le> a"
  proof (intro allI impI)
    fix i :: nat assume "i < 1024"
    then have "(2::real) powi (0 + 1 + int i) \<le> 2 powi 1024"
      by (intro power_int_increasing) auto
    with big show "2 powi (0 + 1 + int i) \<le> a" by linarith
  qed
  from up_reach [OF this] one show ?thesis by (simp add: binade_def)
qed

lemma round_half_even_floor: "\<lfloor>q\<rfloor> \<le> round_half_even q" "round_half_even q \<le> \<lfloor>q\<rfloor> + 1"
  by (simp_all add: round_half_even_def Let_def)

lemma round64_overflow:
  assumes "2 ^ 1024 \<le> x"
  shows "round64 x = PInf"
proof -
  have pos: "0 < x" using assms zero_less_power [of "2::real" 1024] by linarith
  then have ab: "\<bar>x\<bar> = x" by simp
  have b: "binade \<bar>x\<bar> = 1024" using binade_top [OF assms] ab by simp
  have ulp: "(2::real) powi (binade x - 52) = 2 ^ 972" using b by (simp add: ab)
  have "(2::real) ^ 52 * 2 ^ 972 = 2 ^ 1024" by (simp add: power_add [symmetric])
  then have "(2::real) ^ 52 \<le> x / 2 ^ 972"
    using assms by (simp add: pos_le_divide_eq)
  then have "(2::int) ^ 52 \<le> \<lfloor>x / 2 ^ 972\<rfloor>"
    by (simp add: le_floor_iff)
  with round_half_even_floor(1) [of "x / 2 ^ 972"]
  have "(2::int) ^ 52 \<le> round_half_even (x / 2 ^ 972)" by linarith
  then have "(2::real) ^ 52 \<le> of_int (round_half_even (x / 2 ^ 972))"
    by (metis of_int_le_iff of_int_numeral of_int_power)
  then have "(2::real) ^ 52 * 2 ^ 972 \<le> of_int (round_half_even (x / 2 ^ 972)) * 2 ^ 972"
    by (intro mult_right_mono) auto
  then have "(2::real) ^ 1024 \<le> of_int (round_half_even (x / 2 ^ 972)) * 2 ^ 972"
    by (simp add: power_add [symmetric])
  then show ?thesis
    using pos by (simp add: round64_def Let_def ulp del: power_numeral)
qed

lemma overflow_example:
  "sub_cell (Num (2 ^ 1023)) (Num (- (2 ^ 1023))) = PInf"
proof -
  have "(2::real) ^ 1024 \<le> 2 ^ 1023 - - (2 ^ 1023)" by simp
  from round64_overflow [OF this] show ?thesis by (simp only: sub_cell_Num)
qed

lemma rounding_example: "sub_cell (Num 1) (Num (10 ^ 16)) = Num (- (10 ^ 16))"
  by (simp add: sub_cell_Num round64_eval)

subsection \<open>Frames of finite values pass the checks of scikit-learn\<close>

lemma those_map_Some: "those (map Some r) = Some r"
  by (induction r) auto

lemma those_rows_Num: "those (map (\<lambda>r. those (map num_of (map Num r))) m) = Some m"
  by (induction m) (auto simp: those_map_Some comp_def)

lemma no_NaN_DataFrame: "\<not> list_ex (\<lambda>r. NaN \<in> set r) (map (map Num) m)"
  by (auto simp: list_ex_iff)

lemma check_array_DataFrame:
  "check_array (DataFrame cols m) =
     (if m = [] then Inl (ValueError ''Found array with 0 sample(s) while a minimum of 1 is required.'')
      else if cols = [] then Inl (ValueError ''Found array with 0 feature(s) while a minimum of 1 is required.'')
      else Inr m)"
  using those_rows_Num [of m] no_NaN_DataFrame [of m]
  by (simp add: check_array_def DataFrame_def comp_def)

lemma check_reg_targets_DataFrame:
  assumes "length G = length P" "G \<noteq> []" "length gc = length pc" "gc \<noteq> []"
  shows "check_reg_targets (DataFrame gc G) (DataFrame pc P) = Inr (G, P)"
proof -
  from assms have "P \<noteq> []" "pc \<noteq> []" by auto
  with assms show ?thesis
    by (simp add: check_reg_targets_def check_array_DataFrame) (simp add: DataFrame_def)
qed

lemma columns_DataFrame: "columns (DataFrame cols m) = cols"
  by (simp add: DataFrame_def)

lemma map2_sub_Num:
  "map2 sub_cell (map Num p) (map Num g) = map2 (\<lambda>a b. sub_cell (Num a) (Num b)) p g"
proof (induction p arbitrary: g)
  case Nil
  then show ?case by simp
next
  case (Cons a p)
  then show ?case by (cases g) auto
qed

lemma map2_map2_sub_Num:
  "map2 (map2 sub_cell) (map (map Num) P) (map (map Num) G) =
   map2 (map2 (\<lambda>a b. sub_cell (Num a) (Num b))) P G"
proof (induction P arbitrary: G)
  case Nil
  then show ?case by simp
next
  case (Cons a P)
  then show ?case by (cases G) (auto simp: map2_sub_Num)
qed

lemma np_sub_Num:
  assumes "map length P = map length G"
  shows "np_sub (map (map Num) P) (map (map Num) G) =
           Inr (map2 (map2 (\<lambda>a b. sub_cell (Num a) (Num b))) P G)"
  using assms by (simp add: np_sub_def map2_map2_sub_Num comp_def)

text \<open>The elements of the matrix of errors, by their indices.\<close>

lemma set_map2_nth:
  assumes "length p = k" "length g = k"
  shows "set (map2 f p g) = (\<lambda>j. f (p ! j) (g ! j)) ` {..<k}"
  using assms by (auto simp: set_zip image_iff)

lemma set_concat_map2_nth:
  assumes "length P = n" "length G = n"
  shows "set (concat (map2 h P G)) = (\<Union>i\<in>{..<n}. set (h (P ! i) (G ! i)))"
  using assms by (auto simp: set_zip)

lemma set_concat_errors:
  assumes "length P = n" "length G = n" "rectangular k P" "rectangular k G"
  shows "set (concat (map2 (map2 (\<lambda>a b. sub_cell (Num a) (Num b))) P G)) =
           (\<lambda>(i, j). sub_cell (Num (P ! i ! j)) (Num (G ! i ! j))) ` ({..<n} \<times> {..<k})"
proof -
  let ?f = "\<lambda>a b. sub_cell (Num a) (Num b)"
  have rows: "\<And>i. i < n \<Longrightarrow> length (P ! i) = k \<and> length (G ! i) = k"
    using assms by (auto simp: rectangular_def list_all_length)
  have "set (concat (map2 (map2 ?f) P G)) = (\<Union>i\<in>{..<n}. set (map2 ?f (P ! i) (G ! i)))"
    by (rule set_concat_map2_nth [OF assms(1,2)])
  also have "\<dots> = (\<Union>i\<in>{..<n}. (\<lambda>j. ?f (P ! i ! j) (G ! i ! j)) ` {..<k})"
    using rows by (intro SUP_cong refl set_map2_nth) auto
  also have "\<dots> = (\<lambda>(i, j). ?f (P ! i ! j) (G ! i ! j)) ` ({..<n} \<times> {..<k})"
    by auto
  finally show ?thesis .
qed

lemma rectangular_lengths:
  assumes "length P = length G" "rectangular k P" "rectangular k G"
  shows "map length P = map length G"
  using assms by (auto simp: rectangular_def list_all_length list_eq_iff_nth_eq)

lemma r2_score_DataFrame:
  assumes "length G = length P" "G \<noteq> []" "length gc = length pc" "gc \<noteq> []"
  shows "\<exists>v. r2_score (DataFrame gc G) (DataFrame pc P) = Inr v"
  using assms by (simp add: r2_score_def check_reg_targets_DataFrame Let_def)

lemma mean_squared_error_DataFrame:
  assumes "length G = length P" "G \<noteq> []" "length gc = length pc" "gc \<noteq> []"
  shows "\<exists>v. mean_squared_error (DataFrame gc G) (DataFrame pc P) = Inr (Num v)"
  using assms by (simp add: mean_squared_error_def check_reg_targets_DataFrame Let_def)

lemma evaluate_try_DataFrame:
  assumes len: "length G = n" "length P = n"
    and rect: "rectangular k G" "rectangular k P"
    and pos: "0 < n" "0 < k"
    and r2: "r2_score (DataFrame gc G) (DataFrame pc P) = Inr r2"
    and mse: "mean_squared_error (DataFrame gc G) (DataFrame pc P) = Inr mse"
  shows "\<exists>hi lo.
           evaluate_try (DataFrame gc G) (DataFrame pc P) =
             ([Text ''Calculating evaluation metrics'',
               Text_dict ''Evaluation metrics: ''
                 [(''r2_score'', r2), (''mse_score'', mse),
                  (''pos_max_err'', hi), (''neg_max_err'', lo)]],
              Inr [(''r2_score'', r2), (''mse_score'', mse),
                   (''pos_max_err'', hi), (''neg_max_err'', lo)]) \<and>
           hi \<in> (\<lambda>(i, j). sub_cell (Num (P ! i ! j)) (Num (G ! i ! j))) ` ({..<n} \<times> {..<k}) \<and>
           (\<forall>y\<in>(\<lambda>(i, j). sub_cell (Num (P ! i ! j)) (Num (G ! i ! j))) ` ({..<n} \<times> {..<k}).
              cell_le y hi) \<and>
           lo \<in> (\<lambda>(i, j). sub_cell (Num (P ! i ! j)) (Num (G ! i ! j))) ` ({..<n} \<times> {..<k}) \<and>
           (\<forall>y\<in>(\<lambda>(i, j). sub_cell (Num (P ! i ! j)) (Num (G ! i ! j))) ` ({..<n} \<times> {..<k}).
              cell_le lo y)"
proof -
  let ?E = "map2 (map2 (\<lambda>a b. sub_cell (Num a) (Num b))) P G"
  let ?D = "(\<lambda>(i, j). sub_cell (Num (P ! i ! j)) (Num (G ! i ! j))) ` ({..<n} \<times> {..<k})"
  have sub: "np_sub (rows (DataFrame pc P)) (rows (DataFrame gc G)) = Inr ?E"
    using rectangular_lengths [of P G k] len rect by (simp add: DataFrame_def np_sub_Num)
  have elems: "set (concat ?E) = ?D"
    by (rule set_concat_errors [OF len(2) len(1) rect(2) rect(1)])
  have "?D \<noteq> {}" using pos by auto
  then have "set (concat ?E) \<noteq> {}" unfolding elems .
  then have ne: "concat ?E \<noteq> []" by (metis set_empty)
  have "NaN \<notin> ?D" using sub_cell_not_NaN by (auto simp: image_iff) metis
  then have nn: "NaN \<notin> set (concat ?E)" unfolding elems .
  obtain hi where hi: "np_max ?E = Inr hi" "hi \<in> set (concat ?E)"
      "\<forall>y\<in>set (concat ?E). cell_le y hi"
    using np_max_greatest [OF ne nn] by blast
  obtain lo where lo: "np_min ?E = Inr lo" "lo \<in> set (concat ?E)"
      "\<forall>y\<in>set (concat ?E). cell_le lo y"
    using np_min_least [OF ne nn] by blast
  have run: "evaluate_try (DataFrame gc G) (DataFrame pc P) =
             ([Text ''Calculating evaluation metrics'',
               Text_dict ''Evaluation metrics: ''
                 [(''r2_score'', r2), (''mse_score'', mse),
                  (''pos_max_err'', hi), (''neg_max_err'', lo)]],
              Inr [(''r2_score'', r2), (''mse_score'', mse),
                   (''pos_max_err'', hi), (''neg_max_err'', lo)])"
    by (simp only: evaluate_try_def r2 mse sub hi(1) lo(1) sum.case Let_def append.simps)
  from hi(2,3) lo(2,3) have "hi \<in> ?D" "\<forall>y\<in>?D. cell_le y hi" "lo \<in> ?D" "\<forall>y\<in>?D. cell_le lo y"
    unfolding elems by blast+
  with run show ?thesis by blast
qed

subsection \<open>The record returned on frames of finite values\<close>

lemma evaluate_DataFrame:
  assumes len: "length G = n" "length P = n"
    and rect: "rectangular k G" "rectangular k P"
    and cols: "length gc = k" "length pc = k"
    and pos: "0 < n" "0 < k"
  shows "\<exists>r2 mse hi lo.
           r2_score (DataFrame gc G) (DataFrame pc P) = Inr r2 \<and>
           mean_squared_error (DataFrame gc G) (DataFrame pc P) = Inr mse \<and>
           snd (evaluate (DataFrame gc G) (DataFrame pc P)) =
             Inr [(''r2_score'', r2), (''mse_score'', mse),
                  (''pos_max_err'', hi), (''neg_max_err'', lo)] \<and>
           hi \<in> (\<lambda>(i, j). sub_cell (Num (P ! i ! j)) (Num (G ! i ! j))) ` ({..<n} \<times> {..<k}) \<and>
           (\<forall>y\<in>(\<lambda>(i, j). sub_cell (Num (P ! i ! j)) (Num (G ! i ! j))) ` ({..<n} \<times> {..<k}).
              cell_le y hi) \<and>
           lo \<in> (\<lambda>(i, j). sub_cell (Num (P ! i ! j)) (Num (G ! i ! j))) ` ({..<n} \<times> {..<k}) \<and>
           (\<forall>y\<in>(\<lambda>(i, j). sub_cell (Num (P ! i ! j)) (Num (G ! i ! j))) ` ({..<n} \<times> {..<k}).
              cell_le lo y)"
proof -
  have ne: "G \<noteq> []" "gc \<noteq> []" using len cols pos by auto
  have eq: "length G = length P" "length gc = length pc" using len cols by auto
  obtain r2 where r2: "r2_score (DataFrame gc G) (DataFrame pc P) = Inr r2"
    using r2_score_DataFrame [OF eq(1) ne(1) eq(2) ne(2)] by blast
  obtain v where mse: "mean_squared_error (DataFrame gc G) (DataFrame pc P) = Inr (Num v)"
    using mean_squared_error_DataFrame [OF eq(1) ne(1) eq(2) ne(2)] by blast
  from evaluate_try_DataFrame [OF len rect pos r2 mse] obtain hi lo where
    run: "evaluate_try (DataFrame gc G) (DataFrame pc P) =
             ([Text ''Calculating evaluation metrics'',
               Text_dict ''Evaluation metrics: ''
                 [(''r2_score'', r2), (''mse_score'', Num v),
                  (''pos_max_err'', hi), (''neg_max_err'', lo)]],
              Inr [(''r2_score'', r2), (''mse_score'', Num v),
                   (''pos_max_err'', hi), (''neg_max_err'', lo)])"
    and ext: "hi \<in> (\<lambda>(i, j). sub_cell (Num (P ! i ! j)) (Num (G ! i ! j))) ` ({..<n} \<times> {..<k})"
      "\<forall>y\<in>(\<lambda>(i, j). sub_cell (Num (P ! i ! j)) (Num (G ! i ! j))) ` ({..<n} \<times> {..<k}). cell_le y hi"
      "lo \<in> (\<lambda>(i, j). sub_cell (Num (P ! i ! j)) (Num (G ! i ! j))) ` ({..<n} \<times> {..<k})"
      "\<forall>y\<in>(\<lambda>(i, j). sub_cell (Num (P ! i ! j)) (Num (G ! i ! j))) ` ({..<n} \<times> {..<k}). cell_le lo y"
    by blast
  have "snd (evaluate (DataFrame gc G) (DataFrame pc P)) =
          Inr [(''r2_score'', r2), (''mse_score'', Num v),
               (''pos_max_err'', hi), (''neg_max_err'', lo)]"
    by (simp add: evaluate_def except_reraise_def run)
  with r2 mse ext show ?thesis by blast
qed

subsection \<open>Identical matrices; unequal shapes\<close>

lemma squared_errors_same: "squared_errors xs xs = map (\<lambda>x. 0) xs"
  by (induction xs) (auto simp: squared_errors_def)

lemma sum_list_zeros: "sum_list (map (\<lambda>x. 0::real) xs) = 0"
  by (induction xs) auto

lemma sum_list_ones: "sum_list (map (\<lambda>x. 1::real) xs) = real (length xs)"
  by (induction xs) auto

lemma map2_output_score_zero:
  "map2 output_score (map (\<lambda>j. 0) js) (map f js) = map (\<lambda>j. 1) js"
  by (induction js) (auto simp: output_score_def)

lemma average_zeros: "average (map (\<lambda>x. 0) xs) = 0"
  by (simp add: average_def sum_list_zeros)

lemma average_ones: "xs \<noteq> [] \<Longrightarrow> average (map (\<lambda>x. 1) xs) = 1"
  by (simp add: average_def sum_list_ones)

lemma r2_score_same:
  assumes "2 \<le> length G" "gc \<noteq> []" "length gc = length pc"
  shows "r2_score (DataFrame gc G) (DataFrame pc G) = Inr (Num 1)"
proof -
  have g: "G \<noteq> []" using assms(1) by auto
  have c: "check_reg_targets (DataFrame gc G) (DataFrame pc G) = Inr (G, G)"
    using check_reg_targets_DataFrame [OF refl g assms(3,2)] .
  have k: "[0..<length gc] \<noteq> []" using assms(2) by simp
  show ?thesis
    using assms(1) average_ones [OF k]
    by (simp add: r2_score_def c Let_def columns_DataFrame squared_errors_same sum_list_zeros
        map2_output_score_zero)
qed

lemma mean_squared_error_same:
  assumes "G \<noteq> []" "gc \<noteq> []" "length gc = length pc"
  shows "mean_squared_error (DataFrame gc G) (DataFrame pc G) = Inr (Num 0)"
proof -
  have c: "check_reg_targets (DataFrame gc G) (DataFrame pc G) = Inr (G, G)"
    using check_reg_targets_DataFrame [OF refl assms(1,3,2)] .
  show ?thesis
    by (simp add: mean_squared_error_def c Let_def columns_DataFrame squared_errors_same
        sum_list_zeros average_zeros)
qed

lemma check_reg_targets_shape:
  assumes "shape gt \<noteq> shape pred"
  shows "\<exists>e. check_reg_targets gt pred = Inl e"
  using assms by (auto simp: check_reg_targets_def shape_def split: sum.splits)

subsection \<open>The \<^verbatim>\<open>data_collect\<close> task on a table that has the target columns\<close>

lemma getitem_known_columns:
  assumes "set names \<subseteq> set (qa_columns qa)"
  shows "getitem qa names =
           Inr \<lparr>columns = names,
                rows = map (\<lambda>(u, r). select_row (qa_columns qa) names r) (qa_rows qa)\<rparr>"
proof -
  have "filter (\<lambda>t. t \<notin> set (qa_columns qa)) names = []"
    using assms by (auto simp: filter_empty_conv)
  then show ?thesis by (simp add: getitem_def)
qed

lemma data_collect_known_columns:
  assumes "GET_PREDICTION (prediction_path (params ctx)) (targets_name (params ctx)) = Inr (pred, uid)"
    and "GET_QA (date (params ctx)) (lot_id (params ctx)) = Inr qa"
    and "set (targets_name (params ctx)) \<subseteq> set (qa_columns qa)"
  shows "data_collect GET_PREDICTION GET_QA ctx =
           ([Text (''Collecting prediction data from path: '' @ prediction_path (params ctx)),
             Text (''Collecting ground truth data for date: '' @ date (params ctx)
                   @ '', lot_id: '' @ lot_id (params ctx)),
             Text ''Checking if prediction and ground truth UIDs match'']
            @ (if set uid \<noteq> set (map fst (qa_rows qa))
               then [Text ''Warning: The mapping_uids do not match between the prediction and ground_truth data.'']
               else []),
            Inr \<lparr>prediction = pred,
                 ground_truth =
                   \<lparr>columns = targets_name (params ctx),
                    rows = filter (\<lambda>r. NaN \<notin> set r)
                             (map (\<lambda>(u, r). select_row (qa_columns qa) (targets_name (params ctx)) r)
                                (qa_rows qa))\<rparr>\<rparr>)"
  by (simp add: data_collect_def data_collect_try_def except_reraise_def Let_def assms(1,2)
      getitem_known_columns [OF assms(3)] dropna_def mapping_uid_def)

subsection \<open>The keys of the record; the workflow\<close>

lemma evaluate_try_keys:
  "evaluate_try gt pred = (out, Inr m) \<Longrightarrow>
     map fst m = [''r2_score'', ''mse_score'', ''pos_max_err'', ''neg_max_err'']"
  by (auto simp: evaluate_try_def Let_def split: sum.splits)

lemma except_reraise_snd: "snd (except_reraise task r) = snd r"
  by (cases r) (auto simp: except_reraise_def split: sum.splits)

lemma evaluate_keys:
  assumes "snd (evaluate gt pred) = Inr m"
  shows "map fst m = [''r2_score'', ''mse_score'', ''pos_max_err'', ''neg_max_err'']"
proof -
  from assms have "snd (evaluate_try gt pred) = Inr m"
    by (simp add: evaluate_def except_reraise_snd)
  then show ?thesis
    using evaluate_try_keys [of gt pred "fst (evaluate_try gt pred)" m]
    by (cases "evaluate_try gt pred") simp
qed

lemma model_evaluate_evaluated:
  assumes "evaluate_result (model_evaluate GET_PREDICTION GET_QA LOG_METRIC SEND_RESULT ctx) = Some (out, Inr m)"
  shows "\<exists>d. snd (data_collect GET_PREDICTION GET_QA ctx) = Inr d \<and>
             evaluate (ground_truth d) (prediction d) = (out, Inr m)"
  using assms by (auto simp: model_evaluate_def Let_def split: sum.splits)

lemma model_evaluate_downstream:
  assumes "snd (data_collect GET_PREDICTION GET_QA ctx) = Inr d"
    and "evaluate (ground_truth d) (prediction d) = (out, Inr m)"
  shows "model_evaluate GET_PREDICTION GET_QA LOG_METRIC SEND_RESULT ctx =
           \<lparr>data_collect_result = data_collect GET_PREDICTION GET_QA ctx,
            evaluate_result = Some (out, Inr m),
            collect_metric_response = Some (collect_metric LOG_METRIC ctx m),
            send_result_response = Some (send_result SEND_RESULT ctx m)\<rparr>"
  using assms by (simp add: model_evaluate_def Let_def)


subsection \<open>The example runs\<close>

text \<open>
  Roundings used in the examples. The fractions are the \<^verbatim>\<open>float64\<close> values written
  0.1, 0.2 and 0.7, the two sums 0.2 + 0.1 and 0.7 + 0.1, and the differences of these
  sums and 0.2 and 0.7.
\<close>

lemma example_roundings:
  "round64 (- 1) = Num (- 1)" "round64 (- 2) = Num (- 2)" "round64 (- 3) = Num (- 3)"
  "round64 2 = Num 2" "round64 0 = Num 0"
  by (simp_all add: round64_eval)

lemma tenth_roundings:
  "round64 (3602879701896397 / 2 ^ 55) = Num (3602879701896397 / 2 ^ 55)"
  "round64 (3602879701896397 / 2 ^ 54) = Num (3602879701896397 / 2 ^ 54)"
  "round64 (3152519739159347 / 2 ^ 52) = Num (3152519739159347 / 2 ^ 52)"
  "round64 (3602879701896397 / 2 ^ 54 + 3602879701896397 / 2 ^ 55) = Num (5404319552844596 / 2 ^ 54)"
  "round64 (3152519739159347 / 2 ^ 52 + 3602879701896397 / 2 ^ 55) = Num (7205759403792793 / 2 ^ 53)"
  "round64 (5404319552844596 / 2 ^ 54 - 3602879701896397 / 2 ^ 54) = Num (1801439850948199 / 2 ^ 54)"
  "round64 (7205759403792793 / 2 ^ 53 - 3152519739159347 / 2 ^ 52) = Num (900719925474099 / 2 ^ 53)"
  by (simp_all add: round64_eval)

lemmas example_defs = example_params_def example_context_def example_qa_def
  example_prediction_def example_GET_PREDICTION_def example_GET_QA_def

lemmas example_defs2 = example_defs example_LOG_METRIC_def example_SEND_RESULT_def

lemma example_run_metrics:
  "evaluate_result (model_evaluate example_GET_PREDICTION2 example_GET_QA
                      example_LOG_METRIC example_SEND_RESULT example_context) =
     Some ([Text ''Calculating evaluation metrics'',
            Text_dict ''Evaluation metrics: ''
              [(''r2_score'', Num (3 / 4)), (''mse_score'', Num 1),
               (''pos_max_err'', Num 2), (''neg_max_err'', Num 0)]],
           Inr [(''r2_score'', Num (3 / 4)), (''mse_score'', Num 1),
                (''pos_max_err'', Num 2), (''neg_max_err'', Num 0)])"
  by (simp add: example_defs2 example_prediction2_def example_GET_PREDICTION2_def
      model_evaluate_def data_collect_def data_collect_try_def
      except_reraise_def getitem_def dropna_def select_row_def mapping_uid_def DataFrame_def
      Let_def evaluate_def evaluate_try_def r2_score_def mean_squared_error_def
      check_reg_targets_def check_array_def np_sub_def np_max_def np_min_def
      squared_errors_def average_def col_def output_score_def
      sub_cell_Num example_roundings max_cell_def min_cell_def)

section \<open>Properties of the \<^verbatim>\<open>data_collect\<close> task\<close>




text \<open>
  Claim C5. When the identifiers returned with the prediction and the
  \<^verbatim>\<open>mapping_uid\<close> values of the ground truth differ as sets, \<^verbatim>\<open>data_collect\<close> prints
  the warning as its last line and returns, without raising, the prediction as fetched
  and the ground truth restricted to the target columns without its missing-value rows:
  the value it returns for any other list of identifiers, matching ones included.
\<close>

theorem data_collect_uid_mismatch:
  assumes gp: "GET_PREDICTION (prediction_path (params ctx)) (targets_name (params ctx)) = Inr (pred, uid)"
    and gq: "GET_QA (date (params ctx)) (lot_id (params ctx)) = Inr qa"
    and cols: "set (targets_name (params ctx)) \<subseteq> set (qa_columns qa)"
    and diff: "set uid \<noteq> set (mapping_uid qa)"
  shows "\<exists>out gt.
           getitem qa (targets_name (params ctx)) = Inr gt \<and>
           data_collect GET_PREDICTION GET_QA ctx =
             (out @ [Text ''Warning: The mapping_uids do not match between the prediction and ground_truth data.''],
              Inr \<lparr>prediction = pred, ground_truth = dropna gt\<rparr>) \<and>
           (\<forall>GET_PREDICTION' uid'.
              GET_PREDICTION' (prediction_path (params ctx)) (targets_name (params ctx)) = Inr (pred, uid') \<longrightarrow>
              snd (data_collect GET_PREDICTION' GET_QA ctx) = snd (data_collect GET_PREDICTION GET_QA ctx))"
proof -
  let ?names = "targets_name (params ctx)"
  let ?gt = "\<lparr>columns = ?names,
              rows = map (\<lambda>(u, r). select_row (qa_columns qa) ?names r) (qa_rows qa)\<rparr>"
  have g: "getitem qa ?names = Inr ?gt"
    by (rule getitem_known_columns [OF cols])
  have d: "set uid \<noteq> set (map fst (qa_rows qa))"
    using diff by (simp add: mapping_uid_def)
  note dc = data_collect_known_columns [where GET_PREDICTION = GET_PREDICTION and GET_QA = GET_QA
      and ctx = ctx, OF gp gq cols]
  have c2: "data_collect GET_PREDICTION GET_QA ctx =
      ([Text (''Collecting prediction data from path: '' @ prediction_path (params ctx)),
        Text (''Collecting ground truth data for date: '' @ date (params ctx)
              @ '', lot_id: '' @ lot_id (params ctx)),
        Text ''Checking if prediction and ground truth UIDs match'']
       @ [Text ''Warning: The mapping_uids do not match between the prediction and ground_truth data.''],
       Inr \<lparr>prediction = pred, ground_truth = dropna ?gt\<rparr>)"
    using dc d by (simp add: dropna_def)
  have c3: "snd (data_collect GET_PREDICTION' GET_QA ctx) = snd (data_collect GET_PREDICTION GET_QA ctx)"
    if "GET_PREDICTION' (prediction_path (params ctx)) ?names = Inr (pred, uid')"
    for GET_PREDICTION' and uid' :: "'a list"
    using data_collect_known_columns [where GET_PREDICTION = GET_PREDICTION' and GET_QA = GET_QA
      and ctx = ctx, OF that gq cols] dc by simp
  show ?thesis
    using g c2 c3 by blast
qed

theorem data_collect_uid_mismatch_witness:
  "\<exists>out gt.
     getitem example_qa [''ball_thickness'', ''loop_height''] = Inr gt \<and>
     data_collect (example_GET_PREDICTION [''u1'', ''u2'']) example_GET_QA example_context =
       (out @ [Text ''Warning: The mapping_uids do not match between the prediction and ground_truth data.''],
        Inr \<lparr>prediction = example_prediction, ground_truth = dropna gt\<rparr>)"
proof -
  let ?names = "targets_name (params example_context)"
  have h1: "example_GET_PREDICTION [''u1'', ''u2''] (prediction_path (params example_context)) ?names
              = Inr (example_prediction, [''u1'', ''u2''])"
    by (simp add: example_GET_PREDICTION_def)
  have h2: "example_GET_QA (date (params example_context)) (lot_id (params example_context)) = Inr example_qa"
    by (simp add: example_GET_QA_def)
  have h3: "set ?names \<subseteq> set (qa_columns example_qa)"
    by (simp add: example_defs)
  have "''u3'' \<in> set (mapping_uid example_qa)" "''u3'' \<notin> set [''u1'', ''u2'']"
    by (simp_all add: mapping_uid_def example_qa_def)
  then have h4: "set [''u1'', ''u2''] \<noteq> set (mapping_uid example_qa)"
    by blast
  have n: "?names = [''ball_thickness'', ''loop_height'']"
    by (simp add: example_defs)
  from data_collect_uid_mismatch [where GET_PREDICTION = "example_GET_PREDICTION [''u1'', ''u2'']"
      and GET_QA = example_GET_QA and ctx = example_context, OF h1 h2 h3 h4]
  show ?thesis
    unfolding n by blast
qed

text \<open>
  Claim C9. The warning is printed exactly when the identifiers of the prediction differ,
  as a set, from the \<^verbatim>\<open>mapping_uid\<close> values of all fetched rows, the rows that
  \<^verbatim>\<open>dropna\<close> removes included; and two tables with the same \<^verbatim>\<open>mapping_uid\<close> column
  give the same printed lines whatever values they miss.
\<close>

theorem data_collect_warning_before_dropna:
  assumes gp: "GET_PREDICTION (prediction_path (params ctx)) (targets_name (params ctx)) = Inr (pred, uid)"
    and gq: "GET_QA (date (params ctx)) (lot_id (params ctx)) = Inr qa"
    and cols: "set (targets_name (params ctx)) \<subseteq> set (qa_columns qa)"
  shows "((Text ''Warning: The mapping_uids do not match between the prediction and ground_truth data.''
            \<in> set (fst (data_collect GET_PREDICTION GET_QA ctx)))
          = (set uid \<noteq> set (map fst (qa_rows qa)))) \<and>
         (\<forall>GET_QA' qa'.
            GET_QA' (date (params ctx)) (lot_id (params ctx)) = Inr qa' \<and>
            map fst (qa_rows qa') = map fst (qa_rows qa) \<and>
            set (targets_name (params ctx)) \<subseteq> set (qa_columns qa') \<longrightarrow>
            fst (data_collect GET_PREDICTION GET_QA' ctx) = fst (data_collect GET_PREDICTION GET_QA ctx))"
proof -
  note dc = data_collect_known_columns [where GET_PREDICTION = GET_PREDICTION and GET_QA = GET_QA
      and ctx = ctx, OF gp gq cols]
  have iff: "(Text ''Warning: The mapping_uids do not match between the prediction and ground_truth data.''
            \<in> set (fst (data_collect GET_PREDICTION GET_QA ctx)))
          = (set uid \<noteq> set (map fst (qa_rows qa)))"
    using dc by simp
  have same: "fst (data_collect GET_PREDICTION GET_QA' ctx) = fst (data_collect GET_PREDICTION GET_QA ctx)"
    if h: "GET_QA' (date (params ctx)) (lot_id (params ctx)) = Inr qa' \<and>
        map fst (qa_rows qa') = map fst (qa_rows qa) \<and>
        set (targets_name (params ctx)) \<subseteq> set (qa_columns qa')"
    for GET_QA' and qa' :: "'a qa_table"
  proof -
    from h have q: "GET_QA' (date (params ctx)) (lot_id (params ctx)) = Inr qa'"
      and u: "map fst (qa_rows qa') = map fst (qa_rows qa)"
      and c: "set (targets_name (params ctx)) \<subseteq> set (qa_columns qa')" by blast+
    show ?thesis
      using data_collect_known_columns [where GET_PREDICTION = GET_PREDICTION and GET_QA = GET_QA'
        and ctx = ctx, OF gp q c] dc u by simp
  qed
  from iff same show ?thesis by blast
qed

text \<open>
  In the example the row of \<^verbatim>\<open>u2\<close> is dropped and no warning is printed.
\<close>

theorem data_collect_warning_before_dropna_witness:
  "Text ''Warning: The mapping_uids do not match between the prediction and ground_truth data.''
     \<notin> set (fst (data_collect (example_GET_PREDICTION [''u1'', ''u2'', ''u3'']) example_GET_QA example_context)) \<and>
   snd (data_collect (example_GET_PREDICTION [''u1'', ''u2'', ''u3'']) example_GET_QA example_context) =
     Inr \<lparr>prediction = example_prediction,
          ground_truth = DataFrame [''ball_thickness'', ''loop_height''] [[2, 1], [6, 5]]\<rparr>"
proof -
  let ?names = "targets_name (params example_context)"
  have h1: "example_GET_PREDICTION [''u1'', ''u2'', ''u3''] (prediction_path (params example_context)) ?names
              = Inr (example_prediction, [''u1'', ''u2'', ''u3''])"
    by (simp add: example_GET_PREDICTION_def)
  have h2: "example_GET_QA (date (params example_context)) (lot_id (params example_context)) = Inr example_qa"
    by (simp add: example_GET_QA_def)
  have h3: "set ?names \<subseteq> set (qa_columns example_qa)"
    by (simp add: example_defs)
  have same: "set [''u1'', ''u2'', ''u3''] = set (map fst (qa_rows example_qa))"
    by (simp add: example_qa_def)
  have quiet: "Text ''Warning: The mapping_uids do not match between the prediction and ground_truth data.''
     \<notin> set (fst (data_collect (example_GET_PREDICTION [''u1'', ''u2'', ''u3'']) example_GET_QA example_context))"
    using data_collect_warning_before_dropna [where GET_PREDICTION = "example_GET_PREDICTION [''u1'', ''u2'', ''u3'']"
      and GET_QA = example_GET_QA and ctx = example_context, OF h1 h2 h3, THEN conjunct1] same
    by blast
  have dropped: "snd (data_collect (example_GET_PREDICTION [''u1'', ''u2'', ''u3'']) example_GET_QA example_context) =
     Inr \<lparr>prediction = example_prediction,
          ground_truth = DataFrame [''ball_thickness'', ''loop_height''] [[2, 1], [6, 5]]\<rparr>"
    by (simp add: example_defs data_collect_def data_collect_try_def except_reraise_def
      getitem_def dropna_def select_row_def mapping_uid_def DataFrame_def Let_def)
  from quiet dropped show ?thesis by (rule conjI)
qed

section \<open>Properties of the \<^verbatim>\<open>evaluate\<close> task\<close>



text \<open>
  Claim C10. Under the same conditions the \<^verbatim>\<open>neg_max_err\<close> of the returned record
  is at most its \<^verbatim>\<open>pos_max_err\<close>, in the order of \<^verbatim>\<open>float64\<close> values, infinite
  differences included.
\<close>

theorem evaluate_neg_le_pos:
  assumes "length G = n" "length P = n" "rectangular k G" "rectangular k P"
    and "length gc = k" "length pc = k" "0 < n" "0 < k"
  shows "\<exists>m lo hi. snd (evaluate (DataFrame gc G) (DataFrame pc P)) = Inr m \<and>
           map_of m ''neg_max_err'' = Some lo \<and>
           map_of m ''pos_max_err'' = Some hi \<and> cell_le lo hi"
proof -
  let ?D = "(\<lambda>(i, j). sub_cell (Num (P ! i ! j)) (Num (G ! i ! j))) ` ({..<n} \<times> {..<k})"
  from evaluate_DataFrame [OF assms] obtain r2 mse hi lo where
    run: "snd (evaluate (DataFrame gc G) (DataFrame pc P)) =
            Inr [(''r2_score'', r2), (''mse_score'', mse),
                 (''pos_max_err'', hi), (''neg_max_err'', lo)]"
    and hi: "hi \<in> ?D" "\<forall>y\<in>?D. cell_le y hi"
    and lo: "lo \<in> ?D" "\<forall>y\<in>?D. cell_le lo y"
    by blast
  from hi(1) lo(2) have "cell_le lo hi" by blast
  with run show ?thesis by auto
qed

text \<open>
  The second example overflows: the difference of \<open>2 ^ 1023\<close> and \<open>- (2 ^ 1023)\<close> is
  an infinity, and it is the \<^verbatim>\<open>pos_max_err\<close> of the record.
\<close>

theorem evaluate_neg_le_pos_witness:
  "(\<exists>m lo hi. snd (evaluate (DataFrame [''a'', ''b''] [[2, 4], [6, 5]])
                             (DataFrame [''a'', ''b''] [[3, 2], [6, 9]])) = Inr m \<and>
       map_of m ''neg_max_err'' = Some lo \<and>
       map_of m ''pos_max_err'' = Some hi \<and> cell_le lo hi) \<and>
   (\<exists>m. snd (evaluate (DataFrame [''a'', ''b''] [[- (2 ^ 1023), 0]])
                       (DataFrame [''a'', ''b''] [[2 ^ 1023, 0]])) = Inr m \<and>
       map_of m ''neg_max_err'' = Some (Num 0) \<and>
       map_of m ''pos_max_err'' = Some PInf \<and> cell_le (Num 0) PInf)"
proof -
  have first: "\<exists>m lo hi. snd (evaluate (DataFrame [''a'', ''b''] [[2, 4], [6, 5]])
                             (DataFrame [''a'', ''b''] [[3, 2], [6, 9]])) = Inr m \<and>
       map_of m ''neg_max_err'' = Some lo \<and>
       map_of m ''pos_max_err'' = Some hi \<and> cell_le lo hi"
    using evaluate_neg_le_pos [of "[[2, 4], [6, 5]]" 2 "[[3, 2], [6, 9]]" 2 "[''a'', ''b'']" "[''a'', ''b'']"]
    by (simp add: rectangular_def)
  let ?gt = "DataFrame [''a'', ''b''] [[- (2 ^ 1023), 0]]"
  let ?pred = "DataFrame [''a'', ''b''] [[2 ^ 1023, 0]]"
  have sub: "np_sub (rows ?pred) (rows ?gt) = Inr [[PInf, Num 0]]"
    using overflow_example by (simp add: np_sub_def DataFrame_def sub_cell_same del: power_numeral)
  have mx: "np_max [[PInf, Num 0]] = Inr PInf"
    by (simp add: np_max_def max_cell_def)
  have mn: "np_min [[PInf, Num 0]] = Inr (Num 0)"
    by (simp add: np_min_def min_cell_def)
  have len: "length [[- (2 ^ 1023), 0 :: real]] = length [[2 ^ 1023, 0 :: real]]" by simp
  obtain r2 where r2: "r2_score ?gt ?pred = Inr r2"
    using r2_score_DataFrame [OF len] by auto
  obtain mse where mse: "mean_squared_error ?gt ?pred = Inr (Num mse)"
    using mean_squared_error_DataFrame [OF len] by auto
  have run: "snd (evaluate ?gt ?pred) =
      Inr [(''r2_score'', r2), (''mse_score'', Num mse),
           (''pos_max_err'', PInf), (''neg_max_err'', Num 0)]"
    by (simp only: evaluate_def evaluate_try_def r2 mse sub mx mn sum.case Let_def
        except_reraise_def prod.case snd_conv append.simps)
  have second: "\<exists>m. snd (evaluate ?gt ?pred) = Inr m \<and>
       map_of m ''neg_max_err'' = Some (Num 0) \<and>
       map_of m ''pos_max_err'' = Some PInf \<and> cell_le (Num 0) PInf"
    unfolding run by simp
  from first second show ?thesis by (rule conjI)
qed

text \<open>
  Claim C3, amended. When every cell of the prediction is exactly the cell of the
  ground truth plus one \<^verbatim>\<open>float64\<close> constant \<open>c > 0\<close>, with no rounding in the sum,
  both \<^verbatim>\<open>pos_max_err\<close> and \<^verbatim>\<open>neg_max_err\<close> of the returned record are \<open>c\<close>.
\<close>

theorem evaluate_constant_offset:
  assumes "length G = n" "length P = n" "rectangular k G" "rectangular k P"
    and "length gc = k" "length pc = k" "0 < n" "0 < k"
    and "is_float64 c" "0 < c" "\<forall>i<n. \<forall>j<k. P ! i ! j = G ! i ! j + c"
  shows "\<exists>m. snd (evaluate (DataFrame gc G) (DataFrame pc P)) = Inr m \<and>
           map_of m ''pos_max_err'' = Some (Num c) \<and>
           map_of m ''neg_max_err'' = Some (Num c)"
proof -
  let ?D = "(\<lambda>(i, j). sub_cell (Num (P ! i ! j)) (Num (G ! i ! j))) ` ({..<n} \<times> {..<k})"
  have cell: "sub_cell (Num (P ! i ! j)) (Num (G ! i ! j)) = Num c" if "i < n" "j < k" for i j
    using that assms(9,11) by (simp add: sub_cell_Num is_float64_def)
  have D: "?D = {Num c}"
    using assms(7,8) cell by (auto simp: image_iff)
  from evaluate_DataFrame [OF assms(1-8)] obtain r2 mse hi lo where
    run: "snd (evaluate (DataFrame gc G) (DataFrame pc P)) =
            Inr [(''r2_score'', r2), (''mse_score'', mse),
                 (''pos_max_err'', hi), (''neg_max_err'', lo)]"
    and hi: "hi \<in> ?D" and lo: "lo \<in> ?D"
    by blast
  from hi lo have "hi = Num c" "lo = Num c" unfolding D by simp_all
  with run show ?thesis by simp
qed

theorem evaluate_constant_offset_witness:
  "\<exists>m. snd (evaluate (DataFrame [''a'', ''b''] [[1, 2], [3, 4]])
                      (DataFrame [''a'', ''b''] [[3, 4], [5, 6]])) = Inr m \<and>
       map_of m ''pos_max_err'' = Some (Num 2) \<and>
       map_of m ''neg_max_err'' = Some (Num 2)"
proof -
  let ?G = "[[1, 2], [3, 4]] :: real list list"
  let ?P = "[[3, 4], [5, 6]] :: real list list"
  have h: "length ?G = 2" "length ?P = 2" "rectangular 2 ?G" "rectangular 2 ?P"
    "length [''a'', ''b''] = 2" "length [''a'', ''b''] = 2" "0 < (2::nat)" "0 < (2::nat)"
    by (simp_all add: rectangular_def)
  have c: "is_float64 2" "(0::real) < 2"
    by (simp_all add: is_float64_def example_roundings)
  have off: "\<forall>i<2. \<forall>j<2. ?P ! i ! j = ?G ! i ! j + 2"
    by (simp add: less_Suc_eq numeral_2_eq_2)
  show ?thesis
    by (rule evaluate_constant_offset [OF h c off])
qed

text \<open>
  The claim as stated fails when the sum is the \<^verbatim>\<open>float64\<close> sum. For the ground
  truth 0.2 and 0.7 and the constant 0.1 the prediction is 0.30000000000000004 and
  0.7999999999999999; \<^verbatim>\<open>evaluate\<close> returns a \<^verbatim>\<open>pos_max_err\<close> of
  0.10000000000000003 and a \<^verbatim>\<open>neg_max_err\<close> of 0.09999999999999998, neither of them
  the constant.
\<close>

theorem evaluate_constant_offset_counterexample:
  "is_float64 (3602879701896397 / 2 ^ 55) \<and>
   (0::real) < 3602879701896397 / 2 ^ 55 \<and>
   add_cell (Num (3602879701896397 / 2 ^ 54)) (Num (3602879701896397 / 2 ^ 55)) =
     Num (5404319552844596 / 2 ^ 54) \<and>
   add_cell (Num (3152519739159347 / 2 ^ 52)) (Num (3602879701896397 / 2 ^ 55)) =
     Num (7205759403792793 / 2 ^ 53) \<and>
   \<not> isl (snd (evaluate
      (DataFrame [''loop_height''] [[3602879701896397 / 2 ^ 54], [3152519739159347 / 2 ^ 52]])
      (DataFrame [''loop_height''] [[5404319552844596 / 2 ^ 54], [7205759403792793 / 2 ^ 53]]))) \<and>
   map_of (projr (snd (evaluate
      (DataFrame [''loop_height''] [[3602879701896397 / 2 ^ 54], [3152519739159347 / 2 ^ 52]])
      (DataFrame [''loop_height''] [[5404319552844596 / 2 ^ 54], [7205759403792793 / 2 ^ 53]]))))
     ''pos_max_err'' = Some (Num (1801439850948199 / 2 ^ 54)) \<and>
   map_of (projr (snd (evaluate
      (DataFrame [''loop_height''] [[3602879701896397 / 2 ^ 54], [3152519739159347 / 2 ^ 52]])
      (DataFrame [''loop_height''] [[5404319552844596 / 2 ^ 54], [7205759403792793 / 2 ^ 53]]))))
     ''neg_max_err'' = Some (Num (900719925474099 / 2 ^ 53)) \<and>
   Num (1801439850948199 / 2 ^ 54) \<noteq> Num (3602879701896397 / 2 ^ 55) \<and>
   Num (900719925474099 / 2 ^ 53) \<noteq> Num (3602879701896397 / 2 ^ 55)"
proof -
  let ?gt = "DataFrame [''loop_height''] [[3602879701896397 / 2 ^ 54], [3152519739159347 / 2 ^ 52]]"
  let ?pred = "DataFrame [''loop_height''] [[5404319552844596 / 2 ^ 54], [7205759403792793 / 2 ^ 53]]"
  have c: "is_float64 (3602879701896397 / 2 ^ 55)" "(0::real) < 3602879701896397 / 2 ^ 55"
    by (simp_all only: is_float64_def tenth_roundings) simp
  have sums: "add_cell (Num (3602879701896397 / 2 ^ 54)) (Num (3602879701896397 / 2 ^ 55)) =
      Num (5404319552844596 / 2 ^ 54)"
    "add_cell (Num (3152519739159347 / 2 ^ 52)) (Num (3602879701896397 / 2 ^ 55)) =
      Num (7205759403792793 / 2 ^ 53)"
    by (simp_all only: add_cell.simps tenth_roundings)
  have diffs: "sub_cell (Num (5404319552844596 / 2 ^ 54)) (Num (3602879701896397 / 2 ^ 54)) =
      Num (1801439850948199 / 2 ^ 54)"
    "sub_cell (Num (7205759403792793 / 2 ^ 53)) (Num (3152519739159347 / 2 ^ 52)) =
      Num (900719925474099 / 2 ^ 53)"
    by (simp_all only: sub_cell_Num tenth_roundings)
  have sub: "np_sub (rows ?pred) (rows ?gt) =
      Inr [[Num (1801439850948199 / 2 ^ 54)], [Num (900719925474099 / 2 ^ 53)]]"
    using diffs by (simp add: np_sub_def DataFrame_def)
  have mx: "np_max [[Num (1801439850948199 / 2 ^ 54)], [Num (900719925474099 / 2 ^ 53)]] =
      Inr (Num (1801439850948199 / 2 ^ 54))"
    by (simp add: np_max_def max_cell_def)
  have mn: "np_min [[Num (1801439850948199 / 2 ^ 54)], [Num (900719925474099 / 2 ^ 53)]] =
      Inr (Num (900719925474099 / 2 ^ 53))"
    by (simp add: np_min_def min_cell_def)
  have len: "length [[3602879701896397 / 2 ^ 54], [3152519739159347 / 2 ^ 52 :: real]] =
      length [[5404319552844596 / 2 ^ 54], [7205759403792793 / 2 ^ 53 :: real]]"
    by simp
  obtain r2 where r2: "r2_score ?gt ?pred = Inr r2"
    using r2_score_DataFrame [OF len] by auto
  obtain mse where mse: "mean_squared_error ?gt ?pred = Inr (Num mse)"
    using mean_squared_error_DataFrame [OF len] by auto
  have run: "snd (evaluate ?gt ?pred) =
      Inr [(''r2_score'', r2), (''mse_score'', Num mse),
           (''pos_max_err'', Num (1801439850948199 / 2 ^ 54)),
           (''neg_max_err'', Num (900719925474099 / 2 ^ 53))]"
    by (simp only: evaluate_def evaluate_try_def r2 mse sub mx mn sum.case Let_def
        except_reraise_def prod.case snd_conv append.simps)
  have ne: "Num (1801439850948199 / 2 ^ 54) \<noteq> Num (3602879701896397 / 2 ^ 55)"
    "Num (900719925474099 / 2 ^ 53) \<noteq> Num (3602879701896397 / 2 ^ 55)"
    by simp_all
  show ?thesis
    unfolding run by (intro conjI c sums ne) simp_all
qed

text \<open>
  Claim C2, amended. For a matrix of finite values with at least two rows and at least
  one column, evaluated against itself, the returned record is \<^verbatim>\<open>r2_score\<close> 1,
  \<^verbatim>\<open>mse_score\<close> 0, \<^verbatim>\<open>pos_max_err\<close> 0 and \<^verbatim>\<open>neg_max_err\<close> 0.
\<close>

theorem evaluate_identical:
  assumes "length G = n" "rectangular k G" "length gc = k" "length pc = k"
    and "2 \<le> n" "0 < k"
  shows "snd (evaluate (DataFrame gc G) (DataFrame pc G)) =
           Inr [(''r2_score'', Num 1), (''mse_score'', Num 0),
                (''pos_max_err'', Num 0), (''neg_max_err'', Num 0)]"
proof -
  let ?D = "(\<lambda>(i, j). sub_cell (Num (G ! i ! j)) (Num (G ! i ! j))) ` ({..<n} \<times> {..<k})"
  have n: "0 < n" using assms(5) by simp
  have D: "?D = {Num 0}" using n assms(6) by (auto simp: image_iff sub_cell_same)
  have g: "2 \<le> length G" "G \<noteq> []" "gc \<noteq> []" "length gc = length pc"
    using assms by auto
  have r2: "r2_score (DataFrame gc G) (DataFrame pc G) = Inr (Num 1)"
    using r2_score_same [OF g(1,3,4)] .
  have mse: "mean_squared_error (DataFrame gc G) (DataFrame pc G) = Inr (Num 0)"
    using mean_squared_error_same [OF g(2,3,4)] .
  from evaluate_DataFrame [OF assms(1,1,2,2,3,4) n assms(6)] obtain r2' mse' hi lo where
    r2': "r2_score (DataFrame gc G) (DataFrame pc G) = Inr r2'"
    and mse': "mean_squared_error (DataFrame gc G) (DataFrame pc G) = Inr mse'"
    and run: "snd (evaluate (DataFrame gc G) (DataFrame pc G)) =
            Inr [(''r2_score'', r2'), (''mse_score'', mse'),
                 (''pos_max_err'', hi), (''neg_max_err'', lo)]"
    and hi: "hi \<in> ?D" and lo: "lo \<in> ?D"
    by blast
  from hi lo have "hi = Num 0" "lo = Num 0" unfolding D by simp_all
  moreover from r2 r2' mse mse' have "r2' = Num 1" "mse' = Num 0" by simp_all
  ultimately show ?thesis using run by simp
qed

theorem evaluate_identical_witness:
  "snd (evaluate (DataFrame [''a'', ''b''] [[1, 2], [3, 4]])
                 (DataFrame [''a'', ''b''] [[1, 2], [3, 4]])) =
     Inr [(''r2_score'', Num 1), (''mse_score'', Num 0),
          (''pos_max_err'', Num 0), (''neg_max_err'', Num 0)]"
  using evaluate_identical [of "[[1, 2], [3, 4]]" 2 2 "[''a'', ''b'']" "[''a'', ''b'']"]
  by (simp add: rectangular_def)

text \<open>
  The claim as stated, for every pair of identical matrices, fails on a matrix with one
  row, where \<^verbatim>\<open>r2_score\<close> gives \<^verbatim>\<open>nan\<close> for want of two samples, and on a matrix
  without rows, which \<^verbatim>\<open>check_array\<close> refuses.
\<close>

theorem evaluate_identical_counterexample:
  "snd (evaluate (DataFrame [''a'', ''b''] [[1, 2]]) (DataFrame [''a'', ''b''] [[1, 2]])) =
     Inr [(''r2_score'', NaN), (''mse_score'', Num 0),
          (''pos_max_err'', Num 0), (''neg_max_err'', Num 0)] \<and>
   snd (evaluate (DataFrame [''a'', ''b''] []) (DataFrame [''a'', ''b''] [])) =
     Inl (ValueError ''Found array with 0 sample(s) while a minimum of 1 is required.'')"
  by (simp add: evaluate_def evaluate_try_def except_reraise_def r2_score_def
      mean_squared_error_def check_reg_targets_def check_array_def DataFrame_def
      np_sub_def np_max_def np_min_def squared_errors_def average_def col_def Let_def
      sub_cell_same max_cell_def min_cell_def)

text \<open>
  Claim C4. When the shapes of ground truth and prediction differ, the first call of
  \<^verbatim>\<open>evaluate\<close>, \<^verbatim>\<open>r2_score\<close>, raises; the task prints its diagnostic line, raises
  the same exception and returns no record.
\<close>

theorem evaluate_shape_mismatch:
  assumes "shape gt \<noteq> shape pred"
  shows "\<exists>e. r2_score gt pred = Inl e \<and>
           evaluate gt pred =
             ([Text ''Calculating evaluation metrics'',
               Text (''Error in evaluate: '' @ str_exn e)], Inl e)"
proof -
  obtain e where "check_reg_targets gt pred = Inl e"
    using check_reg_targets_shape [OF assms] by blast
  then have "r2_score gt pred = Inl e"
    by (simp add: r2_score_def)
  then show ?thesis
    by (simp add: evaluate_def evaluate_try_def except_reraise_def)
qed

theorem evaluate_shape_mismatch_witness:
  "shape (DataFrame [''a''] [[1], [2]]) \<noteq> shape (DataFrame [''a''] [[1]]) \<and>
   (\<exists>e. r2_score (DataFrame [''a''] [[1], [2]]) (DataFrame [''a''] [[1]]) = Inl e \<and>
        evaluate (DataFrame [''a''] [[1], [2]]) (DataFrame [''a''] [[1]]) =
          ([Text ''Calculating evaluation metrics'',
            Text (''Error in evaluate: '' @ str_exn e)], Inl e))"
  using evaluate_shape_mismatch [of "DataFrame [''a''] [[1], [2]]" "DataFrame [''a''] [[1]]"]
  by (simp add: shape_def DataFrame_def)

section \<open>Properties of the workflow\<close>

text \<open>
  Claim C7. When the \<^verbatim>\<open>evaluate\<close> task of a run returns a record, the record has
  exactly the keys \<^verbatim>\<open>r2_score\<close>, \<^verbatim>\<open>mse_score\<close>, \<^verbatim>\<open>pos_max_err\<close> and
  \<^verbatim>\<open>neg_max_err\<close>; \<^verbatim>\<open>collect_metric\<close> and \<^verbatim>\<open>send_result\<close> both run on that
  record and hand it to their collaborator as it is; and the outcome of either does not
  change with the collaborator of the other.
\<close>

theorem model_evaluate_metrics_record:
  assumes "evaluate_result (model_evaluate GET_PREDICTION GET_QA LOG_METRIC SEND_RESULT ctx) = Some (out, Inr m)"
  shows "map fst m = [''r2_score'', ''mse_score'', ''pos_max_err'', ''neg_max_err''] \<and>
         collect_metric_response (model_evaluate GET_PREDICTION GET_QA LOG_METRIC SEND_RESULT ctx) =
           Some (collect_metric LOG_METRIC ctx m) \<and>
         snd (collect_metric LOG_METRIC ctx m) = LOG_METRIC (model_id (params ctx)) m \<and>
         send_result_response (model_evaluate GET_PREDICTION GET_QA LOG_METRIC SEND_RESULT ctx) =
           Some (send_result SEND_RESULT ctx m) \<and>
         snd (send_result SEND_RESULT ctx m) = SEND_RESULT (model_id (params ctx)) (dag_run ctx) m \<and>
         (\<forall>LOG_METRIC'.
            send_result_response (model_evaluate GET_PREDICTION GET_QA LOG_METRIC' SEND_RESULT ctx) =
            send_result_response (model_evaluate GET_PREDICTION GET_QA LOG_METRIC SEND_RESULT ctx)) \<and>
         (\<forall>SEND_RESULT'.
            collect_metric_response (model_evaluate GET_PREDICTION GET_QA LOG_METRIC SEND_RESULT' ctx) =
            collect_metric_response (model_evaluate GET_PREDICTION GET_QA LOG_METRIC SEND_RESULT ctx))"
proof -
  obtain d where d: "snd (data_collect GET_PREDICTION GET_QA ctx) = Inr d"
    and ev: "evaluate (ground_truth d) (prediction d) = (out, Inr m)"
    using model_evaluate_evaluated [OF assms] by blast
  have keys: "map fst m = [''r2_score'', ''mse_score'', ''pos_max_err'', ''neg_max_err'']"
    using evaluate_keys [of "ground_truth d" "prediction d" m] ev by simp
  have cm: "snd (collect_metric LOG_METRIC ctx m) = LOG_METRIC (model_id (params ctx)) m"
    by (simp add: collect_metric_def except_reraise_snd collect_metric_try_def Let_def)
  have sr: "snd (send_result SEND_RESULT ctx m) = SEND_RESULT (model_id (params ctx)) (dag_run ctx) m"
    by (simp add: send_result_def except_reraise_snd send_result_try_def Let_def)
  show ?thesis
    by (simp add: model_evaluate_downstream [OF d ev] keys cm sr)
qed

theorem model_evaluate_metrics_record_witness:
  "collect_metric_response (model_evaluate example_GET_PREDICTION2 example_GET_QA
                              example_LOG_METRIC example_SEND_RESULT example_context) =
     Some (collect_metric example_LOG_METRIC example_context
             [(''r2_score'', Num (3 / 4)), (''mse_score'', Num 1),
              (''pos_max_err'', Num 2), (''neg_max_err'', Num 0)]) \<and>
   send_result_response (model_evaluate example_GET_PREDICTION2 example_GET_QA
                           example_LOG_METRIC example_SEND_RESULT example_context) =
     Some (send_result example_SEND_RESULT example_context
             [(''r2_score'', Num (3 / 4)), (''mse_score'', Num 1),
              (''pos_max_err'', Num 2), (''neg_max_err'', Num 0)]) \<and>
   snd (send_result example_SEND_RESULT example_context
          [(''r2_score'', Num (3 / 4)), (''mse_score'', Num 1),
           (''pos_max_err'', Num 2), (''neg_max_err'', Num 0)]) =
     Inr (''multi_y_regressor'', ''manual-run'',
          [(''r2_score'', Num (3 / 4)), (''mse_score'', Num 1),
           (''pos_max_err'', Num 2), (''neg_max_err'', Num 0)])"
proof -
  note t = model_evaluate_metrics_record [OF example_run_metrics]
  note a = t [THEN conjunct2, THEN conjunct1]
  note b = t [THEN conjunct2, THEN conjunct2, THEN conjunct2, THEN conjunct1]
  note c = t [THEN conjunct2, THEN conjunct2, THEN conjunct2, THEN conjunct2, THEN conjunct1]
  have "example_SEND_RESULT (model_id (params example_context)) (dag_run example_context)
          [(''r2_score'', Num (3 / 4)), (''mse_score'', Num 1),
           (''pos_max_err'', Num 2), (''neg_max_err'', Num 0)] =
        Inr (''multi_y_regressor'', ''manual-run'',
          [(''r2_score'', Num (3 / 4)), (''mse_score'', Num 1),
           (''pos_max_err'', Num 2), (''neg_max_err'', Num 0)])"
    by (simp add: example_SEND_RESULT_def example_context_def example_params_def)
  with c have "snd (send_result example_SEND_RESULT example_context
          [(''r2_score'', Num (3 / 4)), (''mse_score'', Num 1),
           (''pos_max_err'', Num 2), (''neg_max_err'', Num 0)]) =
        Inr (''multi_y_regressor'', ''manual-run'',
          [(''r2_score'', Num (3 / 4)), (''mse_score'', Num 1),
           (''pos_max_err'', Num 2), (''neg_max_err'', Num 0)])"
    by (rule trans)
  with a b show ?thesis by (intro conjI)
qed

text \<open>
  Claim C8. In each of the four tasks, an exception raised inside the \<^verbatim>\<open>try\<close> block
  makes the task print, after the lines printed so far, one line naming the task and
  the text of the exception, and raise that same exception. An exception of a
  collaborator, or of \<^verbatim>\<open>r2_score\<close>, is the exception of the task; and a task raises or
  returns exactly what its \<^verbatim>\<open>try\<close> block raises or returns, so nothing is retried
  or recovered.
\<close>

theorem tasks_log_and_reraise:
  "(\<forall>out e. data_collect_try GET_PREDICTION GET_QA ctx = (out, Inl e) \<longrightarrow>
       data_collect GET_PREDICTION GET_QA ctx =
         (out @ [Text (''Error in data_collect: '' @ str_exn e)], Inl e)) \<and>
   (\<forall>out e. evaluate_try gt pred = (out, Inl e) \<longrightarrow>
       evaluate gt pred = (out @ [Text (''Error in evaluate: '' @ str_exn e)], Inl e)) \<and>
   (\<forall>out e. collect_metric_try LOG_METRIC ctx m = (out, Inl e) \<longrightarrow>
       collect_metric LOG_METRIC ctx m =
         (out @ [Text (''Error in collect_metric: '' @ str_exn e)], Inl e)) \<and>
   (\<forall>out e. send_result_try SEND_RESULT ctx m = (out, Inl e) \<longrightarrow>
       send_result SEND_RESULT ctx m =
         (out @ [Text (''Error in send_result: '' @ str_exn e)], Inl e)) \<and>
   (\<forall>e. GET_PREDICTION (prediction_path (params ctx)) (targets_name (params ctx)) = Inl e \<longrightarrow>
       snd (data_collect GET_PREDICTION GET_QA ctx) = Inl e) \<and>
   (\<forall>e. r2_score gt pred = Inl e \<longrightarrow> snd (evaluate gt pred) = Inl e) \<and>
   (\<forall>e. LOG_METRIC (model_id (params ctx)) m = Inl e \<longrightarrow>
       snd (collect_metric LOG_METRIC ctx m) = Inl e) \<and>
   (\<forall>e. SEND_RESULT (model_id (params ctx)) (dag_run ctx) m = Inl e \<longrightarrow>
       snd (send_result SEND_RESULT ctx m) = Inl e) \<and>
   snd (data_collect GET_PREDICTION GET_QA ctx) = snd (data_collect_try GET_PREDICTION GET_QA ctx) \<and>
   snd (evaluate gt pred) = snd (evaluate_try gt pred) \<and>
   snd (collect_metric LOG_METRIC ctx m) = snd (collect_metric_try LOG_METRIC ctx m) \<and>
   snd (send_result SEND_RESULT ctx m) = snd (send_result_try SEND_RESULT ctx m)"
  by (simp add: data_collect_def evaluate_def collect_metric_def send_result_def
      except_reraise_snd)
    (simp add: except_reraise_def data_collect_try_def evaluate_try_def
      collect_metric_try_def send_result_try_def Let_def)

theorem tasks_log_and_reraise_witness:
  "data_collect failing_GET_PREDICTION example_GET_QA example_context =
     ([Text ''Collecting prediction data from path: /predictions/run1'',
       Text ''Error in data_collect: prediction store unreachable''],
      Inl (CollaboratorError ''prediction store unreachable'')) \<and>
   evaluate (DataFrame [''ball_thickness'', ''loop_height''] [[2, 1], [6, 5]]) example_prediction =
     ([Text ''Calculating evaluation metrics'',
       Text ''Error in evaluate: Found input variables with inconsistent numbers of samples''],
      Inl (ValueError ''Found input variables with inconsistent numbers of samples'')) \<and>
   collect_metric failing_LOG_METRIC example_context [(''r2_score'', NaN)] =
     ([Text ''Logging metrics for model: multi_y_regressor'',
       Text ''Error in collect_metric: metric server unreachable''],
      Inl (CollaboratorError ''metric server unreachable'')) \<and>
   send_result failing_SEND_RESULT example_context [(''r2_score'', NaN)] =
     ([Text ''Sending results for model: multi_y_regressor'',
       Text ''Error in send_result: result server unreachable''],
      Inl (CollaboratorError ''result server unreachable''))"
proof -
  note t = tasks_log_and_reraise [where GET_PREDICTION = failing_GET_PREDICTION
      and GET_QA = example_GET_QA and ctx = example_context
      and gt = "DataFrame [''ball_thickness'', ''loop_height''] [[2, 1], [6, 5]]"
      and pred = example_prediction
      and LOG_METRIC = failing_LOG_METRIC and SEND_RESULT = failing_SEND_RESULT
      and m = "[(''r2_score'', NaN)]"]
  have b1: "data_collect_try failing_GET_PREDICTION example_GET_QA example_context =
      ([Text ''Collecting prediction data from path: /predictions/run1''],
       Inl (CollaboratorError ''prediction store unreachable''))"
    by (simp add: data_collect_try_def failing_GET_PREDICTION_def example_context_def
        example_params_def)
  have b2: "evaluate_try (DataFrame [''ball_thickness'', ''loop_height''] [[2, 1], [6, 5]]) example_prediction =
      ([Text ''Calculating evaluation metrics''],
       Inl (ValueError ''Found input variables with inconsistent numbers of samples''))"
    by (simp add: evaluate_try_def r2_score_def check_reg_targets_def DataFrame_def
        example_prediction_def)
  have b3: "collect_metric_try failing_LOG_METRIC example_context [(''r2_score'', NaN)] =
      ([Text ''Logging metrics for model: multi_y_regressor''],
       Inl (CollaboratorError ''metric server unreachable''))"
    by (simp add: collect_metric_try_def failing_LOG_METRIC_def example_context_def
        example_params_def)
  have b4: "send_result_try failing_SEND_RESULT example_context [(''r2_score'', NaN)] =
      ([Text ''Sending results for model: multi_y_regressor''],
       Inl (CollaboratorError ''result server unreachable''))"
    by (simp add: send_result_try_def failing_SEND_RESULT_def example_context_def
        example_params_def)
  from t b1 b2 b3 b4 show ?thesis by simp
qed

end
